theory Spec2Isabelle
  imports Main "HOL-Library.Multiset"
begin

section \<open>The search index of the nussl documentation\<close>

text \<open>
  The source file \<^verbatim>\<open>searchindex.js\<close> is one call
  \<^verbatim>\<open>Search.setIndex({envversion: 47, filenames: [...], objects: {...}, objnames: {...},
  objtypes: {...}, terms: {...}, titles: [...], titleterms: {...}})\<close>
  whose argument is an object literal. The embedding below is that literal: a JavaScript
  object is an association list in the order of the literal, an array is a list, a number
  is an \<open>int\<close>, a string is a \<open>string\<close>.
\<close>

subsection \<open>Data model\<close>

text \<open>
  A value of \<^verbatim>\<open>terms\<close> or \<^verbatim>\<open>titleterms\<close> is written in the literal
  either as a bare number (\<^verbatim>\<open>stdin:10\<close>) or as an array of numbers
  (\<^verbatim>\<open>stereo:[7,18]\<close>, \<^verbatim>\<open>standard:[]\<close>).
\<close>

datatype posting = Single int | Postings "int list"

text \<open>
  A member of \<^verbatim>\<open>objects\<close> is the array \<^verbatim>\<open>[docname index, kind code,
  priority code, short signature]\<close>; a value of \<^verbatim>\<open>objnames\<close> is the array
  \<^verbatim>\<open>[domain, kind label, human label]\<close>.
\<close>

type_synonym object_entry = "int \<times> int \<times> int \<times> string"

type_synonym objname = "string \<times> string \<times> string"

fun entry_docname :: "object_entry \<Rightarrow> int" where
  "entry_docname (d, k, p, s) = d"

fun entry_kind :: "object_entry \<Rightarrow> int" where
  "entry_kind (d, k, p, s) = k"

fun entry_priority :: "object_entry \<Rightarrow> int" where
  "entry_priority (d, k, p, s) = p"

text \<open>
  The top-level object. A key that an object literal does not write is \<^verbatim>\<open>undefined\<close>
  when read; here it is \<open>None\<close>.
\<close>

record search_index =
  envversion :: "int option"
  filenames :: "string list option"
  objects :: "(string \<times> (string \<times> object_entry) list) list option"
  objnames :: "(string \<times> objname) list option"
  objtypes :: "(string \<times> string) list option"
  terms :: "(string \<times> posting) list option"
  titles :: "string list option"
  titleterms :: "(string \<times> posting) list option"

subsection \<open>The literal of \<^verbatim>\<open>searchindex.js\<close>\<close>

definition idx_filenames :: "string list" where
  "idx_filenames = [
   ''examples/audio_signal_demo'', ''examples/duet_demo'', ''examples/examples'',
   ''examples/repet_demo'', ''examples/repet_find_repeating_demo'',
   ''examples/repet_sim_demo'', ''getting_started/audio_signal'',
   ''getting_started/audio_signal_basics'', ''getting_started/audio_signal_stft'',
   ''getting_started/getting_started'', ''getting_started/install'', ''getting_started/repet'',
   ''index'', ''src/KAM'', ''src/Nmf'', ''src/audio_signal'', ''src/classes'',
   ''src/constants'', ''src/duet'', ''src/modules'', ''src/repet'', ''src/repet_sim'',
   ''src/separation_base'', ''src/spectral_utils'', ''src/utils'']"

definition idx_titles :: "string list" where
  "idx_titles = [
   ''AduioSignal example'', ''DUET example'', ''nussl Examples'', ''REPET example'',
   ''Finding the repeating period of a song using REPET'', ''REPET-SIM example'',
   ''The AudioSignal Object'', ''AudioSignal Basics'', ''Spectrograms and STFTs'',
   ''Getting Started'', ''Installation'', ''Using REPET'', ''nussl'', ''KAM Class'',
   ''Nmf Class'', ''AudioSignal Class'', ''nussl Classes'', ''constants.py'', ''Duet Class'',
   ''Modules'', ''Repet Class'', ''RepetSim Class'', ''SeparationBase Class'',
   ''spectral_utils.py'', ''utils.py'']"

definition idx_objnames :: "(string \<times> objname) list" where
  "idx_objnames = [
   (''0'', (''py'', ''module'', ''Python module'')),
   (''1'', (''py'', ''class'', ''Python class'')),
   (''2'', (''py'', ''staticmethod'', ''Python static method'')),
   (''3'', (''py'', ''method'', ''Python method'')),
   (''4'', (''py'', ''function'', ''Python function'')),
   (''5'', (''py'', ''attribute'', ''Python attribute'')),
   (''6'', (''py'', ''classmethod'', ''Python class method''))]"

definition idx_objtypes :: "(string \<times> string) list" where
  "idx_objtypes = [
   (''0'', ''py:module''), (''1'', ''py:class''), (''2'', ''py:staticmethod''),
   (''3'', ''py:method''), (''4'', ''py:function''), (''5'', ''py:attribute''),
   (''6'', ''py:classmethod'')]"

definition idx_objects :: "(string \<times> (string \<times> object_entry) list) list" where
  "idx_objects = [
   ('''', [
      (''Duet'', (18, 0, 0, ''-'')), (''KAM'', (13, 0, 0, ''-'')),
      (''Nmf'', (14, 0, 0, ''-'')), (''Repet'', (20, 0, 0, ''-'')),
      (''audio_signal'', (15, 0, 0, ''-'')), (''separation_base'', (22, 0, 0, ''-'')),
      (''spectral_utils'', (23, 0, 0, ''-'')), (''utils'', (24, 0, 0, ''-''))]),
   (''Duet.Duet'', [
      (''find_peaks2'', (18, 2, 1, '''')), (''find_peaks'', (18, 2, 1, '''')),
      (''make_audio_signals'', (18, 3, 1, '''')), (''plot'', (18, 3, 1, '''')),
      (''run'', (18, 3, 1, '''')), (''twoDsmooth'', (18, 3, 1, ''''))]),
   (''KAM.Kernel'', [
      (''gen_predef_kernel'', (13, 3, 1, '''')), (''sim'', (13, 3, 1, ''''))]),
   (''Nmf.DistanceType'', [
      (''DEFAULT'', (14, 5, 1, '''')), (''DIVERGENCE'', (14, 5, 1, '''')),
      (''EUCLIDEAN'', (14, 5, 1, ''''))]),
   (''Nmf.NMF'', [
      (''make_audio_signals'', (14, 3, 1, '''')), (''plot'', (14, 3, 1, '''')),
      (''randomize_input_matrices'', (14, 3, 1, '''')),
      (''recombine_calculated_matrices'', (14, 3, 1, '''')), (''run'', (14, 3, 1, '''')),
      (''update'', (14, 3, 1, ''''))]),
   (''Repet.Repet'', [
      (''compute_beat_spectrum'', (20, 2, 1, '''')),
      (''compute_repeating_mask_sim'', (20, 2, 1, '''')),
      (''compute_repeating_mask_with_beat_spectrum'', (20, 2, 1, '''')),
      (''compute_similarity_matrix'', (20, 2, 1, '''')), (''find_peaks'', (20, 3, 1, '''')),
      (''find_repeating_period_complex'', (20, 2, 1, '''')),
      (''find_repeating_period_simple'', (20, 2, 1, '''')),
      (''find_similarity_indices'', (20, 3, 1, '''')),
      (''get_beat_spectrum'', (20, 3, 1, '''')), (''get_similarity_matrix'', (20, 3, 1, '''')),
      (''make_audio_signals'', (20, 3, 1, '''')), (''plot'', (20, 3, 1, '''')),
      (''run'', (20, 3, 1, '''')), (''update_periods'', (20, 3, 1, ''''))]),
   (''Repet.RepetType'', [
      (''DEFAULT'', (20, 5, 1, '''')), (''ORIGINAL'', (20, 5, 1, '''')),
      (''SIM'', (20, 5, 1, '''')), (''all_types'', (20, 5, 1, ''''))]),
   (''audio_signal.AudioSignal'', [
      (''active_region_is_default'', (15, 5, 1, '''')), (''add'', (15, 3, 1, '''')),
      (''audio_data'', (15, 5, 1, '''')), (''audio_data_as_ints'', (15, 3, 1, '''')),
      (''concat'', (15, 3, 1, '''')), (''file_name'', (15, 5, 1, '''')),
      (''freq_vector'', (15, 5, 1, '''')), (''from_json'', (15, 2, 1, '''')),
      (''get_channel'', (15, 3, 1, '''')),
      (''get_power_spectrogram_channel'', (15, 3, 1, '''')),
      (''get_stft_channel'', (15, 3, 1, '''')), (''istft'', (15, 3, 1, '''')),
      (''load_audio_from_array'', (15, 3, 1, '''')),
      (''load_audio_from_file'', (15, 3, 1, '''')), (''num_channels'', (15, 5, 1, '''')),
      (''num_fft_bins'', (15, 5, 1, '''')), (''peak_normalize'', (15, 3, 1, '''')),
      (''plot_spectrogram'', (15, 3, 1, '''')), (''plot_time_domain'', (15, 3, 1, '''')),
      (''power_spectrogram_data'', (15, 5, 1, '''')), (''rms'', (15, 3, 1, '''')),
      (''set_active_region'', (15, 3, 1, '''')),
      (''set_active_region_to_default'', (15, 3, 1, '''')),
      (''signal_duration'', (15, 5, 1, '''')), (''signal_length'', (15, 5, 1, '''')),
      (''stft'', (15, 3, 1, '''')), (''stft_data'', (15, 5, 1, '''')),
      (''stft_length'', (15, 5, 1, '''')), (''sub'', (15, 3, 1, '''')),
      (''time_vector'', (15, 5, 1, '''')), (''to_json'', (15, 3, 1, '''')),
      (''to_mono'', (15, 3, 1, '''')), (''truncate_samples'', (15, 3, 1, '''')),
      (''truncate_seconds'', (15, 3, 1, '''')), (''write_audio_to_file'', (15, 3, 1, '''')),
      (''zero_pad'', (15, 3, 1, ''''))]),
   (''separation_base.SeparationBase'', [
      (''audio_signal'', (22, 5, 1, '''')), (''from_json'', (22, 6, 1, '''')),
      (''make_audio_signals'', (22, 3, 1, '''')), (''plot'', (22, 3, 1, '''')),
      (''run'', (22, 3, 1, '''')), (''sample_rate'', (22, 5, 1, '''')),
      (''stft_params'', (22, 5, 1, '''')), (''to_json'', (22, 3, 1, ''''))]),
   (''separation_base.SeparationBaseDecoder'', [
      (''json_separation_decoder'', (22, 3, 1, ''''))]),
   (''spectral_utils.StftParams'', [
      (''from_json'', (23, 2, 1, '''')), (''hop_length'', (23, 5, 1, '''')),
      (''n_fft_bins'', (23, 5, 1, '''')), (''to_json'', (23, 3, 1, '''')),
      (''window_length'', (23, 5, 1, '''')), (''window_overlap'', (23, 5, 1, ''''))]),
   (''Duet'', [
      (''Duet'', (18, 1, 1, ''''))]),
   (''KAM'', [
      (''Kernel'', (13, 1, 1, '''')), (''kam'', (13, 4, 1, '''')),
      (''kaml'', (13, 4, 1, '''')), (''randSVD'', (13, 4, 1, ''''))]),
   (''Nmf'', [
      (''DistanceType'', (14, 1, 1, '''')), (''NMF'', (14, 1, 1, ''''))]),
   (''Repet'', [
      (''Repet'', (20, 1, 1, '''')), (''RepetType'', (20, 1, 1, ''''))]),
   (''audio_signal'', [
      (''AudioSignal'', (15, 1, 1, ''''))]),
   (''separation_base'', [
      (''SeparationBase'', (22, 1, 1, '''')), (''SeparationBaseDecoder'', (22, 1, 1, ''''))]),
   (''spectral_utils'', [
      (''StftParams'', (23, 1, 1, '''')), (''e_istft'', (23, 4, 1, '''')),
      (''e_stft'', (23, 4, 1, '''')), (''e_stft_plus'', (23, 4, 1, '''')),
      (''get_window_function'', (23, 4, 1, '''')),
      (''librosa_istft_wrapper'', (23, 4, 1, '''')),
      (''librosa_stft_wrapper'', (23, 4, 1, '''')), (''make_window'', (23, 4, 1, '''')),
      (''plot_stft'', (23, 4, 1, ''''))]),
   (''utils'', [
      (''add_mismatched_arrays'', (24, 4, 1, '''')), (''find_peak_indices'', (24, 4, 1, '''')),
      (''find_peak_values'', (24, 4, 1, '''')), (''json_numpy_obj_hook'', (24, 4, 1, '''')),
      (''json_ready_numpy_array'', (24, 4, 1, '''')),
      (''json_serialize_numpy_array'', (24, 4, 1, '''')),
      (''load_numpy_json'', (24, 4, 1, ''''))])]"

definition idx_terms :: "(string \<times> posting) list" where
  "idx_terms = [
   (''00000000e'', Postings [7, 8]), (''00j'', Single 8), (''01010437e'', Single 8),
   (''01459695e'', Single 11), (''01j'', Single 8), (''02j'', Single 8),
   (''03712653e'', Single 11), (''03958548e'', Single 8), (''03j'', Single 8),
   (''04370117e'', Single 7), (''04j'', Single 8), (''05355762e'', Single 11),
   (''05598299e'', Single 8), (''05j'', Single 8), (''06j'', Single 8),
   (''09772983e'', Single 8), (''0th'', Single 24), (''10351562e'', Single 7),
   (''10690389e'', Single 8), (''10865979e'', Single 8), (''10948921e'', Single 8),
   (''11507810e'', Single 8), (''13543447e'', Single 8), (''13899261e'', Single 8),
   (''13th'', Single 20), (''15182253e'', Single 8), (''16959708e'', Single 11),
   (''17312478e'', Single 11), (''17514888e'', Single 8), (''18454359e'', Single 8),
   (''19548659e'', Single 8), (''1khz'', Postings [15, 23]), (''1st'', Single 24),
   (''22329084e'', Single 11), (''23063958e'', Single 8), (''24206716e'', Single 8),
   (''25701912e'', Single 8), (''26759941e'', Single 7), (''29464362e'', Single 8),
   (''32384062e'', Single 8), (''32742891e'', Single 8), (''34350201e'', Single 8),
   (''36735573e'', Single 8), (''38020910e'', Single 11), (''38383443e'', Single 11),
   (''39212409e'', Single 8), (''44100hz'', Single 23), (''47192383e'', Single 7),
   (''48025423e'', Single 8), (''48095401e'', Single 11), (''48953497e'', Single 8),
   (''49999994e'', Single 8), (''51177116e'', Single 8), (''51614663e'', Single 8),
   (''52118325e'', Single 8), (''53445200e'', Single 11), (''53519881e'', Single 7),
   (''55473606e'', Single 8), (''56239875e'', Single 11), (''56665993e'', Single 8),
   (''58720455e'', Single 8), (''5a9'', Single 10), (''62078346e'', Single 11),
   (''62180164e'', Single 11), (''62709228e'', Single 8), (''63284254e'', Single 11),
   (''63712271e'', Single 8), (''64896795e'', Single 11), (''65341552e'', Single 8),
   (''65585184e'', Single 8), (''66982430e'', Single 8), (''67004268e'', Single 8),
   (''67153326e'', Single 8), (''69027053e'', Single 8), (''69828972e'', Single 8),
   (''75931435e'', Single 11), (''79334674e'', Single 8), (''83410645e'', Single 7),
   (''83490305e'', Single 8), (''83491215e'', Single 8), (''84503690e'', Single 8),
   (''87543298e'', Single 8), (''89334124e'', Single 8), (''91909746e'', Single 8),
   (''92616252e'', Single 11), (''93204018e'', Single 8), (''95030794e'', Single 8),
   (''95939099e'', Single 8), (''96160686e'', Single 8), (''97824207e'', Single 8),
   (''97913919e'', Single 8), (''99995465e'', Single 7), (''99997732e'', Single 7),
   (''99998429e'', Single 11), (''__file__'', Postings [0, 3, 5]), (''__future__'', Single 7),
   (''__init__'', Single 10), (''__main__'', Postings [0, 1, 3, 4, 5]),
   (''__name__'', Postings [0, 1, 3, 4, 5]), (''_backend_mod'', Single 10),
   (''_macosx'', Single 10), (''_show'', Single 10), (''case'', Postings [10, 13, 24]),
   (''class'', Postings []),
   (''default'', Postings [7, 8, 10, 13, 14, 15, 18, 20, 22, 23, 24]),
   (''final'', Postings []), (''float'', Postings [4, 7, 13, 15, 18, 20, 24]),
   (''function'', Postings [8, 10, 13, 14, 15, 23, 24]),
   (''import'', Postings [0, 1, 3, 4, 5, 7, 10, 11, 23]),
   (''int'', Postings [7, 13, 15, 18, 20, 22, 23, 24]),
   (''new'', Postings [7, 8, 11, 12, 13, 15, 22]),
   (''return'', Postings [7, 14, 15, 18, 20, 22, 23, 24]), (''short'', Postings [8, 15, 23]),
   (''static'', Postings [15, 18, 20, 23]), (''switch'', Single 10), (''throw'', Single 20),
   (''true'', Postings [1, 7, 8, 13, 15, 18, 20, 23, 24]), (''try'', Postings [8, 10, 11]),
   (''while'', Postings [8, 12, 15]), (''a_max'', Single 18), (''a_min'', Single 18),
   (''a_min_dist'', Single 18), (''a_num'', Single 18), (''abl'', Postings [8, 10]),
   (''about'', Postings [7, 8, 10, 11]), (''abov'', Postings [8, 10, 23]),
   (''abspath'', Postings [0, 3, 5]), (''accept'', Postings [15, 24]),
   (''access'', Postings [8, 10, 15, 23]), (''accordingli'', Single 8), (''accur'', Single 8),
   (''acoust'', Single 13), (''across'', Single 11), (''activ'', Postings [10, 14, 15]),
   (''activation_matrix'', Single 14), (''active_region_is_default'', Single 15),
   (''actual'', Postings [7, 23]), (''ad_est'', Single 18), (''adapt'', Single 24),
   (''add'', Postings [7, 10, 15, 24]), (''add_mismatched_arrai'', Single 24),
   (''addit'', Postings [13, 15]), (''addition'', Single 23), (''adjac'', Single 23),
   (''adjust'', Single 8), (''advanc'', Single 14), (''affect'', Single 15),
   (''after'', Postings [10, 15, 22]), (''again'', Postings [7, 11]), (''aha'', Single 8),
   (''ahead'', Single 23), (''aim'', Single 12),
   (''algorithm'', Postings [7, 8, 11, 12, 13, 14, 15, 18, 20, 22, 23, 24]),
   (''algparam'', Single 13), (''all'', Postings [7, 8, 10, 13, 14, 15, 20, 22]),
   (''all_typ'', Single 20), (''allow'', Postings [12, 14]), (''almost'', Single 8),
   (''along'', Single 13), (''alongsid'', Single 10), (''alreadi'', Single 23),
   (''alright'', Single 7), (''also'', Postings [8, 10, 11, 12, 14, 23, 24]),
   (''altern'', Single 10), (''alwai'', Single 22), (''amountof'', Single 13),
   (''anaconda2'', Single 10), (''anaconda'', Postings []),
   (''ani'', Postings [10, 12, 13, 15, 20, 23, 24]), (''anoth'', Postings [7, 10]),
   (''antoin'', Single 13), (''anyth'', Single 22), (''arang'', Postings [7, 13]),
   (''arbitrari'', Single 11), (''arg'', Postings []), (''argmin'', Single 8),
   (''argument'', Single 20), (''aris'', Single 10), (''around'', Single 23),
   (''arrai'', Postings []), (''array1'', Single 24), (''array2'', Single 24),
   (''array_json'', Single 24), (''artifact'', Single 8), (''asarrai'', Single 13),
   (''associ'', Postings [20, 22]), (''assum'', Postings [8, 14, 23]), (''attenu'', Single 18),
   (''attribut'', Postings [18, 23]), (''attributeerror'', Single 15),
   (''audio'', Postings [3, 5, 7, 11, 12, 13, 15, 18, 20, 23]),
   (''audio_data'', Postings [7, 8, 15]), (''audio_data_arrai'', Postings [7, 15]),
   (''audio_data_as_int'', Postings [7, 15]),
   (''audio_sign'', Postings [11, 14, 15, 18, 20, 22]), (''audiolab'', Single 13),
   (''audioread'', Single 10), (''audiosign'', Postings []), (''author'', Single 12),
   (''autocorrel'', Single 20), (''automat'', Postings [8, 11]),
   (''avail'', Postings [10, 15, 23]), (''averag'', Postings [7, 18, 20]),
   (''awar'', Single 15), (''awesom'', Single 7), (''axi'', Postings [13, 15]),
   (''back'', Postings [8, 11, 24]), (''backend'', Single 10), (''backend_macosx'', Single 10),
   (''backend_nam'', Single 10), (''backfit'', Single 13), (''backgroun'', Single 3),
   (''background'', Postings [5, 11, 20]), (''barrier'', Single 12),
   (''base'', Postings [4, 7, 8, 14, 15, 18, 20, 22]), (''basestr'', Single 23),
   (''basi'', Single 13), (''basic'', Postings []), (''bean'', Single 8),
   (''beat'', Postings [11, 20]), (''beat_spec'', Single 20),
   (''beat_spectrum'', Postings [4, 11, 20]), (''becaus'', Postings [7, 8, 10]),
   (''been'', Postings [8, 11, 14]), (''befor'', Postings [7, 8, 11, 12, 15]),
   (''begin'', Postings [15, 23]), (''behavior'', Postings [7, 23]), (''belong'', Single 24),
   (''below'', Single 23), (''between'', Postings [7, 13, 18, 20, 23, 24]),
   (''bin'', Postings [8, 11, 13, 15, 18, 20, 23]), (''binari'', Postings [10, 13]),
   (''bit'', Single 15), (''bit_depth'', Single 15), (''bkgd'', Postings [3, 5, 20]),
   (''blackman'', Postings []), (''blind'', Single 18), (''bookkeep'', Single 8),
   (''bool'', Postings [15, 18, 20, 23, 24]), (''both'', Postings [8, 11, 13, 20, 24]),
   (''bound'', Postings [15, 24]), (''breviti'', Single 8), (''brief'', Single 7),
   (''bryan'', Single 20), (''bss'', Single 18), (''bubbl'', Postings []),
   (''bug'', Single 12), (''built'', Single 23), (''calcul'', Postings [15, 20, 23]),
   (''calculated_sign'', Postings [15, 23]), (''calculated_stft'', Single 15),
   (''call'', Postings [8, 10, 11, 14, 20, 22, 23]), (''callabl'', Single 23),
   (''can'', Postings [7, 8, 10, 11, 13, 15, 20, 23, 24]),
   (''cannot'', Postings [7, 15, 20, 22]), (''canva'', Postings [10, 23]),
   (''captur'', Single 18), (''caus'', Single 20), (''center'', Single 23),
   (''central'', Single 13), (''certain'', Single 7), (''chang'', Postings [7, 8, 23]),
   (''channel'', Postings [7, 8, 13, 15, 18, 20, 23]), (''check'', Postings [10, 11]),
   (''choic'', Single 13), (''classmethod'', Single 22), (''close'', Single 13),
   (''closest'', Single 8), (''clue'', Single 11), (''column'', Postings [13, 18]),
   (''com'', Postings [10, 23, 24]), (''combin'', Single 13), (''come'', Single 7),
   (''command'', Single 10), (''common'', Postings [7, 12]), (''compact'', Single 13),
   (''compar'', Single 10), (''complet'', Single 23), (''complex64'', Single 8),
   (''complex'', Postings [4, 8, 13, 15, 23]), (''compon'', Single 13),
   (''compress'', Single 13), (''comput'', Postings [8, 11, 13, 14, 15, 20, 23]),
   (''computation'', Single 13), (''compute_beat_spectrum'', Postings [11, 20]),
   (''compute_repeating_mask_sim'', Single 20),
   (''compute_repeating_mask_with_beat_spectrum'', Single 20),
   (''compute_similarity_matrix'', Single 20), (''concat'', Single 15),
   (''concaten'', Single 15), (''confer'', Single 13), (''config'', Single 10),
   (''configur'', Single 24), (''consid'', Single 13), (''consol'', Single 8),
   (''constant'', Postings []), (''conta'', Single 13),
   (''contain'', Postings [7, 8, 11, 13, 15, 18, 20, 23]), (''content'', Single 15),
   (''control'', Postings [12, 15]), (''conveni'', Single 23),
   (''convert'', Postings [4, 7, 15, 24]), (''convolut'', Single 18),
   (''cool'', Postings [7, 8]), (''coordin'', Single 13), (''copi'', Postings [8, 10, 11, 22]),
   (''core'', Single 12), (''correctli'', Postings [8, 10]),
   (''correspond'', Postings [13, 15, 18, 20]), (''cosin'', Single 20), (''could'', Single 11),
   (''cowbell1_guitar_background_lib2'', Single 3),
   (''cowbell1_guitar_foreground_lib2'', Single 3), (''crash'', Postings [8, 10]),
   (''creat'', Postings [1, 8, 10, 11, 12, 15, 20, 22, 23]), (''cross'', Single 13),
   (''crucial'', Single 7), (''current'', Postings [7, 15, 24]), (''d_max'', Single 18),
   (''d_min'', Single 18), (''d_min_dist'', Single 18), (''d_num'', Single 18),
   (''daniel'', Single 14), (''data'', Postings [7, 8, 15, 18, 20, 22, 23]),
   (''date'', Single 10), (''dct'', Single 24), (''decod'', Postings [22, 24]),
   (''decompos'', Single 23), (''def'', Postings [0, 1, 3, 4, 5, 8]),
   (''default_sample_r'', Postings [15, 18, 23]), (''defin'', Postings [13, 14, 15]),
   (''defult'', Single 13), (''degener'', Single 18), (''delai'', Single 18),
   (''demix'', Single 18), (''demo'', Postings [18, 20]), (''demonstr'', Single 11),
   (''denciti'', Single 13), (''densiti'', Single 23), (''depend'', Single 10),
   (''deprec'', Single 23), (''depth'', Single 15), (''derri'', Single 13),
   (''describ'', Single 20), (''desir'', Single 20),
   (''determin'', Postings [7, 13, 15, 20, 23]), (''dev1_female3_inst_mix'', Postings [1, 18]),
   (''develop'', Postings [10, 18]), (''diagon'', Single 13), (''dict'', Single 24),
   (''dietrich'', Single 18), (''diff'', Single 15),
   (''differ'', Postings [7, 11, 15, 23, 24]), (''dimens'', Postings [7, 8, 18, 24]),
   (''dimension'', Postings [18, 24]), (''direct'', Single 13),
   (''directli'', Postings [10, 22, 23]), (''directori'', Postings [1, 3, 5, 10]),
   (''dirnam'', Postings [0, 3, 5]), (''dismiss'', Single 20), (''displai'', Single 23),
   (''dist'', Single 10), (''distanc'', Postings [13, 14, 18, 20, 24]),
   (''distance_measur'', Single 14), (''distancetyp'', Single 14), (''diverg'', Single 14),
   (''divis'', Single 7), (''do_min'', Single 24), (''do_stft'', Single 14),
   (''doa'', Single 18), (''doe'', Postings [7, 8, 15, 23]), (''doesn'', Single 7),
   (''domain'', Postings [7, 8, 13, 15, 18]), (''don'', Postings [20, 23]),
   (''done'', Postings [15, 20]), (''dot'', Single 12), (''down'', Postings []),
   (''download'', Postings []), (''draw_if_interact'', Single 10),
   (''dtype'', Postings [7, 8, 13, 24]), (''duet_sourc'', Single 1),
   (''duet_test1'', Single 0), (''dur'', Single 7), (''durat'', Single 23),
   (''e_istft'', Single 23), (''e_stft'', Single 23), (''e_stft_plu'', Single 23),
   (''each'', Postings [1, 7, 8, 11, 13, 15, 20, 23, 24]), (''easi'', Postings [7, 8, 10, 12]),
   (''edu'', Postings [12, 20]), (''eec'', Single 20), (''effect'', Single 23),
   (''effici'', Single 23), (''egg'', Single 10), (''either'', Postings [10, 13, 20, 23]),
   (''element'', Postings [13, 15, 18, 20]), (''elimin'', Single 8), (''els'', Single 20),
   (''elsewher'', Single 10), (''encod'', Postings [15, 24]), (''encount'', Single 10),
   (''end'', Postings [15, 23]), (''entir'', Single 15), (''entri'', Postings [12, 15]),
   (''equal'', Postings [20, 23, 24]), (''equival'', Single 13),
   (''estim'', Postings [11, 18]), (''ethan'', Single 12), (''ethanmanilow'', Single 12),
   (''euclidean'', Single 14), (''everi'', Postings [7, 8, 23]), (''exact'', Single 11),
   (''exactli'', Postings [11, 24]), (''examin'', Single 8),
   (''except'', Postings [7, 15, 20]), (''exist'', Postings [1, 3, 5, 10]),
   (''exp'', Single 13), (''expand'', Single 24), (''expect'', Postings [8, 23]),
   (''expens'', Single 13), (''explain'', Single 23), (''explicitli'', Single 7),
   (''expon'', Single 13), (''extend'', Single 15), (''extens'', Single 15),
   (''extra'', Single 23), (''extract'', Postings [11, 13, 15, 18, 20]),
   (''f_istft'', Single 13), (''f_stft'', Single 13), (''factor'', Single 14),
   (''fail'', Single 10), (''fall'', Single 13),
   (''fals'', Postings [0, 8, 13, 14, 15, 18, 23, 24]), (''far'', Single 11),
   (''faster'', Postings [8, 13]), (''featur'', Single 15), (''few'', Postings [7, 8, 10, 20]),
   (''fft'', Postings [8, 15, 23]), (''fgnd'', Postings [3, 5]), (''fhat'', Single 13),
   (''fig'', Postings [10, 23]), (''figur'', Postings [10, 23]), (''file'', Postings []),
   (''file_nam'', Postings [7, 15, 23]), (''filenam'', Single 15),
   (''filter'', Postings [8, 11, 13, 18]), (''find'', Postings []),
   (''find_peak'', Postings [18, 20]), (''find_peak_indic'', Single 24),
   (''find_peak_valu'', Single 24), (''find_peaks2'', Single 18),
   (''find_repeating_period_complex'', Postings [4, 20]),
   (''find_repeating_period_simpl'', Postings [4, 20]), (''find_similarity_indic'', Single 20),
   (''fine'', Postings [10, 12]), (''first'', Postings []), (''fitzgerald'', Single 13),
   (''fix'', Single 10), (''fkgd'', Single 20), (''flag'', Postings [10, 15, 18, 23]),
   (''flexibl'', Postings [12, 23]), (''float32'', Postings [7, 8]), (''float64'', Single 13),
   (''fmaxplot'', Single 13), (''folder'', Single 10), (''follow'', Postings [10, 23]),
   (''footnot'', Postings [7, 8]), (''forc'', Postings [10, 20]),
   (''foreground'', Postings [3, 5, 11, 20]), (''format'', Postings [7, 23]),
   (''forward'', Single 8), (''found'', Single 1), (''four'', Single 10),
   (''fourier'', Postings [8, 15, 23]), (''frame'', Postings [11, 13, 20]),
   (''framework'', Postings [10, 12]), (''freq'', Postings [7, 8, 13, 20, 23]),
   (''freq_max'', Single 23), (''freq_vector'', Postings [8, 15]), (''frequeci'', Single 13),
   (''frequenc'', Postings [7, 8, 13, 15, 18, 23]), (''frequency_vector'', Single 8),
   (''from'', Postings []), (''from_json'', Postings [15, 22, 23]),
   (''full'', Postings [7, 13, 15]), (''fullkernel'', Single 13), (''funcion'', Single 13),
   (''further'', Single 18), (''futur'', Single 8), (''gamma'', Single 13),
   (''gen_predef_kernel'', Single 13), (''gener'', Postings [13, 20, 24]),
   (''get'', Postings []), (''get_beat_spectrum'', Postings [4, 11, 20]),
   (''get_channel'', Postings [7, 15]), (''get_power_spectrogram_channel'', Single 15),
   (''get_similarity_matrix'', Single 20), (''get_stft_channel'', Postings [8, 15]),
   (''get_supported_filetyp'', Postings [10, 23]), (''get_window_funct'', Single 23),
   (''github'', Postings [10, 12]), (''give'', Postings [11, 20, 23]),
   (''given'', Postings [13, 18, 20]), (''global'', Single 10), (''good'', Single 20),
   (''gotcha'', Single 7), (''graph'', Single 23), (''great'', Single 7),
   (''guarante'', Postings [8, 23, 24]), (''guess'', Postings [7, 11]),
   (''guitar2__cowbell1_background_libstft'', Single 5),
   (''guitar2__cowbell1_foreground_libstft'', Single 5),
   (''guitar2__cowbell1_none_0'', Postings [3, 5]),
   (''guitar2__cowbell1_similarity_matrix_lib'', Single 5), (''hadn'', Postings [7, 11]),
   (''half'', Postings [20, 23]), (''ham'', Postings [13, 20]), (''hann'', Single 23),
   (''have'', Postings []), (''haven'', Single 20), (''heart'', Single 7),
   (''help'', Single 7), (''henc'', Single 13), (''here'', Postings [7, 10, 11, 23]),
   (''high_pass_cutoff'', Single 20), (''highest'', Single 23), (''highli'', Single 10),
   (''histogram'', Postings [1, 18]), (''histoi'', Single 11), (''histori'', Single 11),
   (''history_background'', Single 11), (''history_beat_spectrum'', Single 11),
   (''history_foreground'', Single 11), (''historyrepeating_propellorhead'', Single 4),
   (''historyrepeatingpropellerhead'', Single 11), (''hop'', Postings [4, 8, 11, 23]),
   (''hop_length'', Postings [1, 4, 8, 15, 23]), (''horizont'', Single 13),
   (''how'', Postings [7, 8, 11]), (''http'', Postings [10, 20, 23, 24]),
   (''icassp'', Single 13), (''idx'', Single 8), (''ieee'', Postings [13, 18]),
   (''ifi'', Postings [22, 24]), (''imag'', Postings [13, 23]),
   (''implement'', Postings [8, 12, 13, 14, 15, 18, 20]), (''includ'', Postings [13, 23]),
   (''index'', Postings [8, 10, 12, 15]), (''individu'', Single 23), (''ineleg'', Single 10),
   (''info'', Postings [7, 10]), (''inform'', Postings [7, 10, 14, 20, 23]),
   (''inherit'', Single 23), (''init'', Single 22),
   (''input'', Postings [0, 1, 3, 4, 5, 7, 13, 14, 15, 18, 20, 23, 24]),
   (''input_arrai'', Single 24), (''input_audio_sign'', Postings [14, 18, 20, 22]),
   (''input_file_nam'', Postings [1, 18]), (''input_file_path'', Postings [7, 8, 15]),
   (''input_nam'', Postings [3, 5, 20]), (''inputfil'', Single 13),
   (''insert'', Postings [0, 3, 5]), (''insid'', Single 10), (''inspect'', Postings [8, 24]),
   (''instanc'', Single 23), (''instanti'', Postings [11, 15, 22]),
   (''instead'', Postings [8, 13, 20, 23, 24]), (''int16'', Single 7),
   (''integ'', Postings [11, 15, 23, 24]), (''intend'', Single 23),
   (''interact'', Postings [12, 23]), (''interactiveaudiolab'', Postings []),
   (''interest'', Single 8), (''interfac'', Single 8),
   (''intern'', Postings [7, 8, 13, 20, 23]), (''interv'', Single 13),
   (''introduct'', Single 7), (''invers'', Postings []), (''invert'', Single 8),
   (''issu'', Postings []), (''istft'', Postings [0, 8, 15, 23]), (''iter'', Single 13),
   (''join'', Postings [0, 1, 3, 5]), (''jourjin'', Single 18),
   (''json'', Postings [15, 22, 24]), (''json_dict'', Single 22),
   (''json_numpy_obj_hook'', Single 24), (''json_ready_numpy_arrai'', Single 24),
   (''json_separation_decod'', Single 22), (''json_serialize_numpy_arrai'', Single 24),
   (''json_str'', Postings [15, 22, 23]), (''jsondecod'', Postings []), (''jump'', Single 23),
   (''just'', Postings [7, 8, 11, 15, 23]), (''k_cross'', Single 13), (''kam'', Postings []),
   (''kaml'', Single 13), (''kbf'', Single 13), (''kernel'', Postings [13, 18]),
   (''khz'', Single 7), (''kind'', Postings [8, 11]), (''knhood'', Single 13),
   (''know'', Postings [8, 11]), (''kparam'', Single 13), (''kparamv'', Single 13),
   (''ktype'', Single 13), (''kwarg'', Postings [14, 20, 22]), (''kwfunc'', Single 13),
   (''lab'', Single 12), (''lambda'', Single 13), (''larger'', Postings [15, 24]),
   (''last'', Postings [10, 23]), (''leav'', Postings [8, 15]), (''lee'', Single 14),
   (''left'', Single 15), (''len'', Postings [7, 24]),
   (''length'', Postings [8, 11, 13, 15, 20, 23, 24]), (''less'', Postings [13, 15]),
   (''let'', Postings [7, 8, 11]), (''level'', Postings [8, 12, 23]), (''lib'', Single 10),
   (''librari'', Single 12), (''librosa'', Postings [8, 10, 23]),
   (''librosa_istft_wrapp'', Single 23), (''librosa_stft_wrapp'', Single 23),
   (''light'', Single 13), (''like'', Postings [7, 8, 10, 11, 23]), (''limit'', Single 13),
   (''line'', Single 10), (''linear'', Single 13), (''linspac'', Single 23),
   (''list'', Postings [13, 18, 20, 24]), (''littl'', Single 8), (''liutku'', Single 13),
   (''load'', Postings [0, 1, 7, 11, 15]), (''load_audio_from_arrai'', Single 15),
   (''load_audio_from_fil'', Single 15), (''load_numpy_json'', Single 24),
   (''local'', Postings [10, 22]), (''locat'', Single 10), (''logic'', Single 13),
   (''longer'', Single 13), (''look'', Postings [8, 10, 11, 20]), (''lot'', Single 7),
   (''low'', Postings [8, 12, 18]), (''lower'', Postings [23, 24]), (''lp_cutoff'', Single 8),
   (''lp_stft'', Single 8), (''mac'', Single 10), (''machin'', Postings [10, 23]),
   (''macosx'', Single 10), (''made'', Single 11), (''magnitud'', Single 20),
   (''mai'', Postings [8, 10, 11, 15, 23]), (''main'', Postings [0, 1, 3, 4, 5, 7, 15]),
   (''make'', Postings []), (''make_audio_sign'', Postings [1, 3, 5, 11, 14, 18, 20, 22]),
   (''make_window'', Single 23), (''makeplot'', Single 13),
   (''mani'', Postings [7, 8, 11, 15, 23]), (''manilow'', Single 12), (''manual'', Single 23),
   (''march'', Single 20), (''mask'', Postings [18, 20]), (''massag'', Single 23),
   (''mat'', Postings [13, 18, 23]), (''match'', Single 10), (''matplotlib'', Postings []),
   (''matplotlibrc'', Single 10), (''matrix'', Postings [11, 13, 14, 18, 20, 23]),
   (''max'', Postings [23, 24]), (''max_num'', Postings [18, 20]), (''max_peak'', Single 18),
   (''max_period'', Postings [4, 11, 20]), (''max_repeating_fram'', Single 20),
   (''maximum'', Postings [18, 20, 24]), (''mean'', Postings [7, 10, 13, 15]),
   (''meant'', Single 23), (''measur'', Postings [13, 14, 20]),
   (''median'', Postings [11, 13]), (''merge_file_fhuypf'', Postings []),
   (''merge_file_wi3qx7'', Postings []), (''meshgrid'', Single 13),
   (''method'', Postings [13, 20]), (''might'', Single 10), (''min'', Postings [20, 24]),
   (''min_dist'', Postings [18, 20, 24]), (''min_distance_between_fram'', Single 20),
   (''min_period'', Postings [4, 11, 20]), (''min_thr'', Postings [18, 20]),
   (''minimum'', Postings [18, 20, 24]), (''mixtur'', Postings [13, 18, 20]),
   (''mkdir'', Postings [1, 3, 5]), (''mode'', Postings [13, 23]), (''model'', Single 13),
   (''mono'', Single 7), (''more'', Postings [7, 8, 10, 15, 23]), (''most'', Postings [8, 10]),
   (''much'', Single 15), (''multichannel'', Single 23), (''multipl'', Postings [4, 11]),
   (''multipli'', Single 13), (''music'', Single 20), (''must'', Postings [11, 14, 24]),
   (''my_audio_sign'', Single 15), (''n_ch'', Single 0), (''n_fft_bin'', Postings [8, 15, 23]),
   (''n_peak'', Single 24), (''n_sampl'', Single 15), (''n_sec'', Single 23),
   (''n_second'', Single 15), (''name'', Postings [7, 10, 15]),
   (''ndarrai'', Postings [15, 23, 24]), (''neat'', Single 11),
   (''need'', Postings [1, 3, 5, 8, 11, 23]), (''neg'', Single 14), (''neighbour'', Single 13),
   (''neighbourhood'', Single 13), (''netherland'', Single 18), (''neural'', Single 14),
   (''never'', Single 22), (''new_beat_spec_plot'', Single 20),
   (''new_figure_manag'', Single 10), (''new_plot'', Single 20),
   (''new_sim_matrix_plot'', Single 20), (''newest'', Single 10), (''next'', Single 23),
   (''nhood'', Single 13), (''nmf'', Postings []), (''non'', Postings [10, 11, 14, 20]),
   (''none'', Postings [7, 8, 13, 14, 15, 18, 20, 23, 24]),
   (''normal'', Postings [13, 15, 18]), (''northwestern'', Postings [12, 20]),
   (''note'', Postings [7, 8, 13, 15, 20, 23, 24]), (''noth'', Single 14),
   (''notimplementederror'', Single 22), (''now'', Postings [7, 8, 10, 11, 20]),
   (''num_bin'', Single 23), (''num_channel'', Postings [0, 7, 15]), (''num_fft'', Single 23),
   (''num_fft_bin'', Postings [8, 13, 15, 23]), (''num_sourc'', Single 18),
   (''num_templ'', Single 14), (''num_time_block'', Single 23),
   (''number'', Postings [7, 8, 10, 11, 13, 14, 15, 18, 20, 23, 24]), (''numbi'', Single 13),
   (''numer'', Postings [13, 18, 24]), (''numit'', Single 13), (''nump'', Single 24),
   (''numpi'', Postings []), (''nussl'', Postings []), (''nuzzl'', Single 12),
   (''nyquist'', Single 23), (''obecjt'', Postings []), (''obj'', Postings []),
   (''object'', Postings []), (''octob'', Single 20), (''off'', Single 8),
   (''okai'', Postings [7, 8, 11]), (''onc'', Postings [10, 11]),
   (''onli'', Postings [13, 15, 20, 23, 24]), (''onu'', Single 23),
   (''open'', Postings [10, 15]), (''oper'', Postings [8, 15]),
   (''option'', Postings [7, 13, 15, 18, 20, 23]), (''order'', Postings [11, 13, 18]),
   (''org'', Single 10), (''orient'', Single 12), (''origin'', Postings [15, 18, 20, 23]),
   (''other'', Postings []), (''our'', Postings [7, 8, 11]),
   (''out'', Postings [3, 5, 11, 15, 23]), (''outlin'', Single 11),
   (''output'', Postings [0, 1, 3, 5, 7, 8, 11, 13, 15, 18, 20, 23]),
   (''output_fil'', Single 20), (''output_file_nam'', Single 1),
   (''output_file_path'', Single 15), (''output_nam'', Postings [18, 22]),
   (''output_name_stem'', Single 1), (''outputfil'', Single 14), (''outsid'', Single 13),
   (''over'', Postings [13, 20, 23]), (''overflow'', Single 10), (''overlai'', Single 11),
   (''overlap'', Single 23), (''overlap_sampl'', Single 13), (''overrid'', Postings [20, 23]),
   (''overwrit'', Postings [7, 8, 15, 23]), (''own'', Postings [8, 11]),
   (''ozgur'', Single 18), (''packag'', Postings [10, 13]), (''pad'', Single 23),
   (''page'', Postings [7, 8, 12]), (''param'', Postings [15, 24]), (''paramet'', Postings []),
   (''paramv'', Single 13), (''pardo'', Single 20), (''part'', Postings [11, 15, 20]),
   (''pass'', Postings [7, 8, 18, 20, 22, 23]), (''past'', Single 10),
   (''path'', Postings [0, 1, 3, 5, 7, 8, 13, 15, 18, 20, 23]), (''path_to_fil'', Single 20),
   (''path_to_file1'', Single 0), (''path_to_file2'', Single 0),
   (''path_to_input_fil'', Postings [1, 3, 5, 7, 15, 18, 20]),
   (''pattern'', Postings [7, 11, 20]), (''peak'', Postings [18, 20, 24]),
   (''peak_indic'', Postings [20, 24]), (''peak_norm'', Single 15), (''peak_valu'', Single 24),
   (''peakindex'', Single 18), (''peasi'', Single 8), (''per'', Single 23),
   (''perfect'', Single 13), (''perform'', Postings [18, 20, 23]), (''period'', Postings []),
   (''period_complex'', Single 4), (''period_complex_second'', Single 4),
   (''period_simpl'', Single 4), (''period_simple_second'', Single 4), (''php'', Single 20),
   (''pick'', Single 18), (''piec'', Single 20), (''pip'', Postings []), (''place'', Single 7),
   (''pleas'', Postings [10, 12]), (''plot'', Postings [1, 5, 14, 15, 18, 20, 22, 23]),
   (''plot_beat_spectrum'', Single 20), (''plot_sim_matrix'', Single 20),
   (''plot_spectrogram'', Single 15), (''plot_stft'', Single 23),
   (''plot_time_domain'', Single 15), (''plt'', Postings [10, 23]),
   (''png'', Postings [1, 5, 20, 23]), (''point'', Postings [13, 15, 23]),
   (''popul'', Postings [8, 22]), (''popular'', Single 12), (''portion'', Single 13),
   (''porto'', Single 20), (''portug'', Single 20), (''posit'', Single 18),
   (''possibl'', Postings [8, 10, 13, 20]), (''post'', Single 10),
   (''power'', Postings [8, 13, 15, 20, 23]), (''power_spectrogram_data'', Postings [8, 15]),
   (''pre'', Postings [10, 13, 15]), (''predefin'', Single 13), (''presum'', Single 10),
   (''pretti'', Single 11), (''previou'', Single 8), (''previous'', Single 24),
   (''principl'', Single 11), (''print'', Postings [4, 7, 10, 15, 20, 23]),
   (''prior'', Postings [10, 14]), (''process'', Postings [13, 14, 18]),
   (''produc'', Postings [8, 11, 23]), (''project'', Single 20), (''pronounc'', Single 12),
   (''proper'', Single 24), (''properti'', Postings [11, 13, 23]), (''propos'', Single 18),
   (''prototyp'', Single 12), (''provid'', Postings [7, 8, 12, 13, 14, 20, 22, 23, 24]),
   (''proxim'', Single 13), (''psd'', Postings [13, 23]), (''put'', Postings [7, 15]),
   (''py2'', Single 10), (''pylab_setup'', Single 10), (''pypi'', Single 10),
   (''pyplot'', Postings [10, 23]), (''python2'', Single 10),
   (''python'', Postings [8, 10, 12]), (''quadrat'', Single 13), (''question'', Single 12),
   (''quick'', Single 8), (''rafii'', Postings [13, 20]), (''rais'', Postings [15, 22]),
   (''random'', Postings [11, 13]), (''random_beat_spectrum'', Single 11),
   (''randomize_input_matric'', Single 14), (''randsvd'', Single 13), (''rank'', Single 13),
   (''rate'', Postings [13, 15, 18, 20, 22, 23]), (''rather'', Single 8),
   (''read'', Single 15), (''readi'', Postings [7, 24]),
   (''real'', Postings [11, 15, 18, 20, 23]), (''realli'', Single 7), (''rebuild'', Single 23),
   (''receiv'', Postings [13, 14, 18]), (''recent'', Single 10),
   (''recombine_calculated_matric'', Single 14), (''recommend'', Postings [10, 20, 23]),
   (''reconstruct'', Single 8), (''reconstruct_reflect'', Postings [8, 15, 23]),
   (''recreat'', Single 23), (''rectangular'', Postings []), (''reduc'', Single 23),
   (''ref'', Single 15), (''refer'', Postings [7, 13, 14, 18, 20]),
   (''reflect'', Postings [8, 23]), (''region'', Single 15), (''regular'', Postings [8, 24]),
   (''regularli'', Single 15), (''reiniti'', Single 8), (''reinstal'', Single 10),
   (''relat'', Postings [7, 10, 15]), (''releas'', Postings [7, 8]), (''relev'', Single 22),
   (''rememb'', Single 23), (''remov'', Postings [8, 23]), (''remove_pad'', Single 23),
   (''remove_reflect'', Postings [0, 8, 15, 23]), (''render'', Single 10),
   (''repeat'', Postings []), (''repeating_period'', Postings [4, 11, 20]),
   (''repet1'', Single 20), (''repet2'', Postings [11, 20]), (''repet3'', Single 20),
   (''repet4'', Single 20), (''repet'', Postings []), (''repet_exact_period'', Single 11),
   (''repet_period_guess'', Single 11), (''repet_sim'', Single 5), (''repet_typ'', Single 20),
   (''repettyp'', Single 20), (''report'', Single 12),
   (''repres'', Postings [8, 11, 15, 20, 23, 24]), (''represent'', Postings [7, 8, 15]),
   (''requir'', Postings []), (''research'', Single 20), (''reshap'', Single 13),
   (''respons'', Single 8), (''result'', Postings [1, 8, 13, 18, 20]),
   (''retriev'', Single 20), (''reus'', Postings [11, 15]), (''review'', Single 12),
   (''rickard'', Single 18), (''right'', Postings [7, 13]), (''root'', Postings [7, 15]),
   (''row'', Postings [13, 18, 20]), (''rubric'', Postings [15, 20]),
   (''run'', Postings [1, 3, 5, 10, 13, 14, 15, 18, 20, 22]), (''runtimeerror'', Single 10),
   (''sai'', Single 11), (''same'', Postings [7, 8, 11, 13, 15, 18, 23, 24]),
   (''sampl'', Postings [7, 13, 15, 18, 20, 22, 23]), (''sample_audio_fil'', Single 15),
   (''sample_r'', Postings [4, 7, 15, 18, 20, 22, 23]), (''sampler'', Single 15),
   (''satisfi'', Single 10), (''save'', Postings [15, 18, 23]), (''scalabl'', Single 13),
   (''scalar'', Single 18), (''scale'', Single 24), (''scikit'', Single 13),
   (''scipi'', Postings [10, 13, 23]), (''scott'', Single 18), (''search'', Postings [12, 24]),
   (''sebastian'', Single 14), (''sec'', Single 13),
   (''second'', Postings [4, 7, 8, 11, 13, 15, 20, 23, 24]), (''section'', Single 15),
   (''see'', Postings [7, 8, 10, 11, 12, 15, 23]), (''seealso'', Single 15),
   (''select'', Single 13), (''self'', Postings [8, 15, 18, 20, 23]), (''sens'', Single 7),
   (''sensor'', Single 18), (''separ'', Postings [7, 8, 11, 12, 13, 14, 15, 18, 20, 22, 23]),
   (''separarationbas'', Postings [12, 16]), (''separation_bas'', Postings [14, 18, 20, 22]),
   (''separation_class'', Single 22), (''separationbas'', Postings []),
   (''separationbasedecod'', Single 22), (''seri'', Postings [8, 13, 15, 23]),
   (''serial'', Single 22), (''set'', Postings [1, 3, 5, 7, 8, 10, 13, 14, 15, 20, 23]),
   (''set_active_region'', Single 15), (''set_active_region_to_default'', Single 15),
   (''settabl'', Single 23), (''setup'', Single 10), (''seung'', Single 14),
   (''shape'', Postings [7, 8, 13, 23, 24]), (''share'', Single 24), (''shat'', Single 13),
   (''should'', Postings [8, 10, 13, 22, 23]), (''should_update_activ'', Single 14),
   (''should_update_templ'', Single 14), (''shouldnorm'', Single 14), (''show'', Single 23),
   (''show_interactive_plot'', Single 23), (''shown'', Single 23), (''side'', Single 20),
   (''sig'', Single 15), (''siganl'', Single 13), (''signal1'', Postings [0, 7, 8]),
   (''signal1_lowpass'', Single 8), (''signal1_lp'', Single 8), (''signal2'', Single 7),
   (''signal3'', Single 7), (''signal'', Postings [1, 3, 5, 7, 8, 11, 13, 15, 18, 20, 23]),
   (''signal_dur'', Postings [7, 15]), (''signal_length'', Postings [7, 15]),
   (''signal_starting_posit'', Single 15), (''signallength'', Single 20),
   (''signatur'', Single 8), (''sigpow'', Postings []), (''sigrec'', Postings []),
   (''sigspec'', Postings []), (''sim'', Postings []), (''sim_mat'', Single 20),
   (''similar'', Postings [8, 13, 18, 20]), (''similarity_matrix'', Single 20),
   (''similarity_threshold'', Single 20), (''similarli'', Single 7),
   (''simpl'', Postings [4, 7, 20]), (''simpli'', Single 7), (''simultan'', Single 20),
   (''simval'', Single 13), (''simval_cross'', Single 13), (''sin'', Postings [7, 23]),
   (''sinc'', Postings [8, 23]), (''sine'', Single 23), (''sine_wav'', Single 23),
   (''singl'', Postings [7, 8, 13, 14, 15, 23]), (''singular'', Single 13),
   (''site'', Single 10), (''situat'', Single 23), (''size'', Postings [11, 15, 18]),
   (''slice'', Postings [11, 23]), (''slide'', Single 13), (''smaller'', Single 24),
   (''smat'', Single 18), (''smooth'', Single 18), (''societi'', Single 20),
   (''soft'', Single 20), (''solut'', Single 10), (''some'', Postings [7, 8, 10, 11]),
   (''someth'', Single 8), (''sometim'', Single 10), (''somewher'', Single 10),
   (''sort'', Single 20), (''sound'', Single 20), (''sourc'', Postings []),
   (''sourcekernel'', Single 13), (''specif'', Postings [10, 24]),
   (''specifi'', Postings [13, 14, 15, 23]), (''specparam'', Single 13),
   (''spectral'', Postings [13, 23]), (''spectral_util'', Postings []),
   (''spectrogram'', Postings []), (''spectrum'', Postings [11, 20]),
   (''speech'', Postings [13, 18]), (''springer'', Single 18), (''sqrt'', Single 13),
   (''squar'', Postings [7, 15]), (''src1'', Single 0), (''src2'', Single 0),
   (''stack'', Single 10), (''stackoverflow'', Postings [10, 23, 24]), (''stage'', Single 13),
   (''stai'', Single 23), (''standard'', Postings []), (''stdin'', Single 10),
   (''stereo'', Postings [7, 18]), (''stft'', Postings []), (''stft_data'', Postings [8, 15]),
   (''stft_length'', Postings [8, 15]), (''stft_more_bin'', Single 23),
   (''stft_param'', Postings [1, 4, 15, 18, 20, 22]), (''stft_with_reflect'', Single 23),
   (''stftparam'', Postings []), (''stftparm'', Single 23), (''still'', Postings [11, 23]),
   (''stop'', Single 24), (''store'', Postings [1, 3, 5, 8, 15]),
   (''str'', Postings [1, 15, 18, 22, 23]), (''strength'', Single 11),
   (''string'', Postings [10, 13, 15, 20, 22, 23, 24]), (''structur'', Postings [10, 13]),
   (''sub'', Postings [13, 15]), (''subtract'', Postings [7, 15]), (''sudo'', Single 10),
   (''sum'', Single 15), (''support'', Single 13), (''suppress'', Single 23),
   (''svd'', Single 13), (''symmetr'', Single 20), (''system'', Postings [14, 20]),
   (''take'', Postings [20, 23]), (''taken'', Single 8), (''taper'', Single 23),
   (''target'', Single 10), (''task'', Single 7), (''techniqu'', Postings [11, 18, 20]),
   (''tell'', Single 7), (''templat'', Single 14), (''tempor'', Single 15),
   (''termin'', Single 10), (''test'', Single 8), (''tfcoords1'', Single 13),
   (''tfcoords2'', Single 13), (''than'', Postings [10, 15, 23]),
   (''thei'', Postings [7, 8, 13]), (''them'', Postings [8, 10, 11, 23]),
   (''thi'', Postings [7, 8, 10, 11, 12, 13, 14, 15, 20, 22, 23, 24]),
   (''thing'', Postings [7, 11, 15]), (''think'', Single 11), (''third'', Postings [8, 13]),
   (''those'', Postings [10, 11, 23]), (''three'', Single 13),
   (''three_d_plot'', Postings [1, 18]), (''threshold'', Postings [18, 20, 24]),
   (''through'', Postings [8, 13, 15]), (''thrown'', Single 15), (''thusli'', Single 8),
   (''time'', Postings [7, 8, 11, 13, 15, 18, 20, 23]), (''time_vector'', Postings [7, 15]),
   (''timeseri'', Postings []), (''timestamp'', Postings [7, 15]), (''titl'', Single 23),
   (''tkagg'', Single 10), (''to_json'', Postings [15, 22, 23]),
   (''to_mono'', Postings [7, 8, 15]), (''top'', Single 23), (''traceback'', Single 10),
   (''track'', Single 20), (''trade'', Single 8), (''transact'', Postings [13, 18]),
   (''transform'', Postings [8, 15, 23]), (''trick'', Single 8),
   (''truncat'', Postings [8, 13, 15, 24]), (''truncate_sampl'', Single 15),
   (''truncate_second'', Single 15), (''tune'', Single 12), (''tupl'', Single 24),
   (''turn'', Single 24), (''tvec'', Postings []), (''twice'', Postings [11, 13]),
   (''two'', Postings [7, 10, 11, 13, 14, 15, 18, 24]), (''twodsmooth'', Single 18),
   (''type'', Postings [11, 13, 20, 23]), (''unalt'', Single 8), (''under'', Single 10),
   (''understand'', Single 7), (''uniform'', Single 11), (''univers'', Single 12),
   (''unlink'', Single 23), (''unmix'', Single 18), (''until'', Single 15),
   (''upcom'', Single 7), (''updat'', Postings [14, 20, 23]),
   (''update_period'', Postings [4, 20]), (''upon'', Postings [15, 23]),
   (''upper'', Single 24), (''us20130064379'', Single 20),
   (''use_librosa'', Postings [8, 15, 23]), (''user'', Postings [8, 12, 13, 14, 15, 23]),
   (''userdef'', Single 13), (''usual'', Single 10), (''util'', Postings []),
   (''valu'', Postings [7, 8, 11, 13, 15, 18, 20, 23, 24]), (''variant'', Single 20),
   (''vector'', Postings [7, 8, 13, 14, 18, 20, 23]), (''venv'', Single 10),
   (''verbos'', Single 15), (''version'', Postings []), (''vertic'', Postings [13, 15]),
   (''via'', Single 18), (''voic'', Single 20), (''wai'', Postings [7, 8, 10, 11, 23]),
   (''walk'', Single 15), (''want'', Postings [7, 8, 11, 23, 24]), (''warn'', Single 10),
   (''wav'', Postings [0, 1, 3, 4, 5, 7, 8, 11, 13, 15, 18, 20]), (''wave'', Single 23),
   (''waveform'', Single 15), (''weight'', Single 13), (''well'', Postings [8, 12, 23]),
   (''wfunc'', Single 13), (''what'', Postings [8, 10, 11, 15, 23]),
   (''when'', Postings [7, 8, 10, 11, 15, 23]), (''where'', Postings [10, 11, 13, 15, 23]),
   (''whether'', Postings [13, 18]), (''which'', Postings [10, 13, 14, 15, 20, 24]),
   (''whole'', Postings [13, 15, 18]), (''whoop'', Single 8), (''why'', Single 11),
   (''wide'', Postings []), (''widowlength'', Single 13), (''width'', Single 13),
   (''win'', Single 20), (''win_length'', Single 23), (''win_typ'', Single 23),
   (''window'', Postings [13, 15, 18, 20, 23]), (''window_length'', Postings [8, 15, 20, 23]),
   (''window_overlap'', Single 23), (''window_typ'', Postings [8, 15, 20, 23]),
   (''windowattribut'', Postings [18, 20]), (''windowlength'', Single 13),
   (''windowtyp'', Postings [13, 20, 23]), (''wise'', Postings [15, 18]),
   (''within'', Postings [7, 23]), (''without'', Postings [8, 23]), (''won'', Single 20),
   (''work'', Postings [7, 8, 10, 11, 23, 24]), (''would'', Postings [7, 8, 10, 13]),
   (''wrapper'', Single 8), (''write'', Postings [3, 5, 7, 8, 11, 15]),
   (''write_audio_to_fil'', Postings [0, 1, 3, 5, 7, 8, 11, 15]), (''wrt'', Postings [18, 23]),
   (''wth'', Single 15), (''x86_64'', Single 10), (''xhat'', Single 18), (''yet'', Single 15),
   (''yilmaz'', Single 18), (''you'', Postings []), (''your'', Postings [7, 10, 23]),
   (''zafar'', Postings [13, 20]), (''zero'', Postings [13, 15, 23]), (''zero_pad'', Single 15)]"

definition idx_titleterms :: "(string \<times> posting) list" where
  "idx_titleterms = [
   (''class'', Postings [13, 14, 15, 16, 18, 20, 21, 22]), (''aduiosign'', Single 0),
   (''all'', Single 11), (''anaconda'', Single 10), (''arrai'', Single 7),
   (''audiosign'', Postings [6, 7, 15]), (''basic'', Postings [7, 8]), (''code'', Single 12),
   (''constant'', Single 17), (''contact'', Postings [10, 12]), (''correct'', Single 10),
   (''document'', Single 12), (''download'', Single 10), (''duet'', Postings [1, 18]),
   (''exampl'', Postings [0, 1, 2, 3, 5, 12]), (''file'', Single 7), (''find'', Single 4),
   (''first'', Single 12), (''from'', Postings [7, 10]), (''get'', Postings [9, 11]),
   (''have'', Single 10), (''indic'', Single 12), (''initi'', Single 7),
   (''instal'', Single 10), (''instruct'', Postings []), (''introduct'', Single 11),
   (''invers'', Single 8), (''issu'', Single 10), (''kam'', Single 13), (''make'', Single 10),
   (''manipul'', Single 7), (''matplotlib'', Single 10), (''modul'', Single 19),
   (''nmf'', Single 14), (''numpi'', Single 7), (''nussl'', Postings [2, 12, 16]),
   (''object'', Postings [6, 8]), (''other'', Single 7), (''paramet'', Single 8),
   (''period'', Postings [4, 11]), (''pip'', Single 10), (''repeat'', Postings [4, 11]),
   (''repet'', Postings [3, 4, 5, 11, 20]), (''repetsim'', Single 21), (''requir'', Single 10),
   (''result'', Single 11), (''run'', Single 11), (''separationbas'', Single 22),
   (''sim'', Single 5), (''song'', Single 4), (''sourc'', Single 10),
   (''spectral_util'', Single 23), (''spectrogram'', Single 8), (''start'', Single 9),
   (''step'', Single 12), (''stft'', Single 8), (''stftparam'', Single 8),
   (''sure'', Single 10), (''tabl'', Single 12), (''togeth'', Single 11),
   (''troubleshoot'', Postings [10, 12]), (''util'', Single 24), (''version'', Single 10),
   (''you'', Single 10)]"

definition searchindex :: search_index where
  "searchindex = \<lparr>
     envversion = Some 47,
     filenames = Some idx_filenames,
     objects = Some idx_objects,
     objnames = Some idx_objnames,
     objtypes = Some idx_objtypes,
     terms = Some idx_terms,
     titles = Some idx_titles,
     titleterms = Some idx_titleterms \<rparr>"

subsection \<open>Reading the tables\<close>

text \<open>
  Property access \<^verbatim>\<open>obj[key]\<close> on an object written as a literal: when a key is
  written twice the later value is the one read, so the list is folded from the left and
  the last match stays. \<open>None\<close> is \<^verbatim>\<open>undefined\<close>.
\<close>

definition js_get :: "(string \<times> 'v) list \<Rightarrow> string \<Rightarrow> 'v option" where
  "js_get kvs k = fold (\<lambda>(k', v) r. if k' = k then Some v else r) kvs None"

text \<open>
  The docname indices that a value of \<^verbatim>\<open>terms\<close> writes: the number itself, or the
  elements of the array.
\<close>

fun posting_docnames :: "posting \<Rightarrow> int list" where
  "posting_docnames (Single d) = [d]"
| "posting_docnames (Postings ds) = ds"

text \<open>Whether a value of \<^verbatim>\<open>terms\<close> is written as an array.\<close>

fun is_list :: "posting \<Rightarrow> bool" where
  "is_list (Single v) = False"
| "is_list (Postings ds) = True"

text \<open>\<^verbatim>\<open>terms[w]\<close>, and the docname indices it lists (none when the key is absent).\<close>

definition term_lookup :: "search_index \<Rightarrow> string \<Rightarrow> posting option" where
  "term_lookup idx w = (case terms idx of None \<Rightarrow> None | Some ts \<Rightarrow> js_get ts w)"

definition term_docnames :: "search_index \<Rightarrow> string \<Rightarrow> int list" where
  "term_docnames idx w = (case term_lookup idx w of None \<Rightarrow> [] | Some p \<Rightarrow> posting_docnames p)"

definition titleterm_lookup :: "search_index \<Rightarrow> string \<Rightarrow> posting option" where
  "titleterm_lookup idx w = (case titleterms idx of None \<Rightarrow> None | Some ts \<Rightarrow> js_get ts w)"

text \<open>\<^verbatim>\<open>filenames[i]\<close>: \<^verbatim>\<open>undefined\<close> outside the array.\<close>

definition docname_at :: "search_index \<Rightarrow> int \<Rightarrow> string option" where
  "docname_at idx i =
     (case filenames idx of
        None \<Rightarrow> None
      | Some fs \<Rightarrow> if 0 \<le> i \<and> i < int (length fs) then Some (fs ! nat i) else None)"

definition valid_docname :: "search_index \<Rightarrow> int \<Rightarrow> bool" where
  "valid_docname idx i =
     (case filenames idx of None \<Rightarrow> False | Some fs \<Rightarrow> 0 \<le> i \<and> i < int (length fs))"

text \<open>\<^verbatim>\<open>objects[q]\<close>, and the member names of the inner mapping.\<close>

definition object_lookup :: "search_index \<Rightarrow> string \<Rightarrow> (string \<times> object_entry) list option" where
  "object_lookup idx q = (case objects idx of None \<Rightarrow> None | Some objs \<Rightarrow> js_get objs q)"

definition member_names :: "search_index \<Rightarrow> string \<Rightarrow> string list" where
  "member_names idx q = (case object_lookup idx q of None \<Rightarrow> [] | Some ms \<Rightarrow> map fst ms)"

text \<open>Every member entry of every inner mapping of \<^verbatim>\<open>objects\<close>, and every value of
  \<^verbatim>\<open>terms\<close>, in the order of the literal.\<close>

definition object_entries :: "search_index \<Rightarrow> (string \<times> string \<times> object_entry) list" where
  "object_entries idx =
     (case objects idx of
        None \<Rightarrow> []
      | Some objs \<Rightarrow> concat (map (\<lambda>(owner, ms). map (\<lambda>(name, e). (owner, name, e)) ms) objs))"

definition term_entries :: "search_index \<Rightarrow> (string \<times> posting) list" where
  "term_entries idx = (case terms idx of None \<Rightarrow> [] | Some ts \<Rightarrow> ts)"

text \<open>The docname indices written in \<^verbatim>\<open>objects\<close> (first component of a member entry) and
  in \<^verbatim>\<open>terms\<close>; the kind and priority codes written in \<^verbatim>\<open>objects\<close> (second and third
  component).\<close>

definition object_docnames :: "search_index \<Rightarrow> int list" where
  "object_docnames idx = map (\<lambda>(owner, name, e). entry_docname e) (object_entries idx)"

definition term_docname_refs :: "search_index \<Rightarrow> int list" where
  "term_docname_refs idx = concat (map (\<lambda>(t, p). posting_docnames p) (term_entries idx))"

definition docname_refs :: "search_index \<Rightarrow> int list" where
  "docname_refs idx = object_docnames idx @ term_docname_refs idx"

definition code_refs :: "search_index \<Rightarrow> int list" where
  "code_refs idx =
     concat (map (\<lambda>(owner, name, e). [entry_kind e, entry_priority e]) (object_entries idx))"

text \<open>
  A number used as a property key is converted to its decimal string
  (\<^verbatim>\<open>objtypes[3]\<close> reads the key \<^verbatim>\<open>"3"\<close>).
\<close>

definition digit_char :: "nat \<Rightarrow> char" where
  "digit_char n = ''0123456789'' ! n"

fun dec_nat :: "nat \<Rightarrow> string" where
  "dec_nat n = (if n < 10 then [digit_char n] else dec_nat (n div 10) @ [digit_char (n mod 10)])"

declare dec_nat.simps [simp del]

definition decimal :: "int \<Rightarrow> string" where
  "decimal i = (if i < 0 then CHR ''-'' # dec_nat (nat (- i)) else dec_nat (nat i))"

definition objtypes_keys :: "search_index \<Rightarrow> string list" where
  "objtypes_keys idx = (case objtypes idx of None \<Rightarrow> [] | Some ots \<Rightarrow> map fst ots)"

definition objnames_keys :: "search_index \<Rightarrow> string list" where
  "objnames_keys idx = (case objnames idx of None \<Rightarrow> [] | Some ons \<Rightarrow> map fst ons)"

definition objtype_lookup :: "search_index \<Rightarrow> string \<Rightarrow> string option" where
  "objtype_lookup idx k = (case objtypes idx of None \<Rightarrow> None | Some ots \<Rightarrow> js_get ots k)"

definition objname_lookup :: "search_index \<Rightarrow> string \<Rightarrow> objname option" where
  "objname_lookup idx k = (case objnames idx of None \<Rightarrow> None | Some ons \<Rightarrow> js_get ons k)"

definition known_code :: "search_index \<Rightarrow> int \<Rightarrow> bool" where
  "known_code idx c =
     (objtype_lookup idx (decimal c) \<noteq> None \<and> objname_lookup idx (decimal c) \<noteq> None)"

subsection \<open>The consumer: normalisation, loader and serialiser\<close>

text \<open>
  Modelled from the spec: the consumer's normalisation of a \<^verbatim>\<open>terms\<close> value. The
  consumer is not part of \<^verbatim>\<open>searchindex.js\<close>; the specification asks it to treat a value
  as "either a single index or a list" and to "normalize to a list".
\<close>

fun normalize :: "posting \<Rightarrow> posting" where
  "normalize (Single v) = Postings [v]"
| "normalize (Postings ds) = Postings ds"

text \<open>
  Modelled from the spec: the three errors that the specification asks a loader to detect
  at load time, stated on the structure: (a) malformed artifact, a top-level key that the
  format does not mark optional is absent; (b) dangling reference, a docname index
  anywhere in the structure is out of range; (c) unknown kind or priority code. The
  docname indices of a structure are those written in \<^verbatim>\<open>objects\<close> and \<^verbatim>\<open>terms\<close>, those
  written in \<^verbatim>\<open>titleterms\<close>, and the positions of \<^verbatim>\<open>titles\<close>, which the format
  describes as a mapping from docname index to title.
\<close>

datatype load_error = MalformedArtifact | DanglingReference | UnknownCode

definition titleterm_entries :: "search_index \<Rightarrow> (string \<times> posting) list" where
  "titleterm_entries idx = (case titleterms idx of None \<Rightarrow> [] | Some ts \<Rightarrow> ts)"

definition titleterm_docname_refs :: "search_index \<Rightarrow> int list" where
  "titleterm_docname_refs idx =
     concat (map (\<lambda>(t, p). posting_docnames p) (titleterm_entries idx))"

definition title_docname_refs :: "search_index \<Rightarrow> int list" where
  "title_docname_refs idx =
     (case titles idx of None \<Rightarrow> [] | Some ts \<Rightarrow> map int [0..<length ts])"

definition structure_docname_refs :: "search_index \<Rightarrow> int list" where
  "structure_docname_refs idx =
     docname_refs idx @ titleterm_docname_refs idx @ title_docname_refs idx"

definition malformed :: "search_index \<Rightarrow> bool" where
  "malformed idx =
     (envversion idx = None \<or> filenames idx = None \<or> objects idx = None \<or>
      objnames idx = None \<or> objtypes idx = None \<or> terms idx = None)"

definition dangling :: "search_index \<Rightarrow> bool" where
  "dangling idx = list_ex (\<lambda>d. \<not> valid_docname idx d) (structure_docname_refs idx)"

definition unknown_codes :: "search_index \<Rightarrow> bool" where
  "unknown_codes idx = list_ex (\<lambda>c. \<not> known_code idx c) (code_refs idx)"

text \<open>
  Modelled from the spec: the index loader, which is missing from the source. It reads
  the required keys, then walks the object table, the terms table, the title terms and
  the titles, entry by entry, and stops at the first error; when there is none it returns
  the docname table, the object table and the terms table (with the two lookup tables for
  the codes and the version). Postings are normalised to lists at load.
\<close>

record loaded_index =
  version :: int
  docnames :: "string list"
  object_table :: "(string \<times> (string \<times> object_entry) list) list"
  kind_names :: "(string \<times> objname) list"
  kind_types :: "(string \<times> string) list"
  term_table :: "(string \<times> int list) list"

definition in_range :: "string list \<Rightarrow> int \<Rightarrow> bool" where
  "in_range fs d = (0 \<le> d \<and> d < int (length fs))"

definition code_listed :: "(string \<times> objname) list \<Rightarrow> (string \<times> string) list \<Rightarrow> int \<Rightarrow> bool" where
  "code_listed ons ots c = (js_get ots (decimal c) \<noteq> None \<and> js_get ons (decimal c) \<noteq> None)"

definition check_entry ::
  "string list \<Rightarrow> (string \<times> objname) list \<Rightarrow> (string \<times> string) list \<Rightarrow> object_entry \<Rightarrow>
   load_error option" where
  "check_entry fs ons ots e =
     (if in_range fs (entry_docname e)
      then (if code_listed ons ots (entry_kind e) \<and> code_listed ons ots (entry_priority e)
            then None else Some UnknownCode)
      else Some DanglingReference)"

definition check_posting :: "string list \<Rightarrow> posting \<Rightarrow> load_error option" where
  "check_posting fs p =
     (if list_all (in_range fs) (posting_docnames p) then None else Some DanglingReference)"

fun first_error :: "('a \<Rightarrow> load_error option) \<Rightarrow> 'a list \<Rightarrow> load_error option" where
  "first_error chk [] = None"
| "first_error chk (x # xs) = (case chk x of Some e \<Rightarrow> Some e | None \<Rightarrow> first_error chk xs)"

definition check_objects ::
  "string list \<Rightarrow> (string \<times> objname) list \<Rightarrow> (string \<times> string) list \<Rightarrow>
   (string \<times> (string \<times> object_entry) list) list \<Rightarrow> load_error option" where
  "check_objects fs ons ots objs =
     first_error (\<lambda>(owner, ms). first_error (\<lambda>(name, e). check_entry fs ons ots e) ms) objs"

definition check_postings :: "string list \<Rightarrow> (string \<times> posting) list \<Rightarrow> load_error option" where
  "check_postings fs ts = first_error (\<lambda>(t, p). check_posting fs p) ts"

definition check_titles :: "string list \<Rightarrow> string list option \<Rightarrow> load_error option" where
  "check_titles fs given =
     (case given of
        None \<Rightarrow> None
      | Some ts \<Rightarrow> if length ts \<le> length fs then None else Some DanglingReference)"

definition load :: "search_index \<Rightarrow> load_error + loaded_index" where
  "load idx =
     (case envversion idx of None \<Rightarrow> Inl MalformedArtifact | Some ev \<Rightarrow>
     (case filenames idx of None \<Rightarrow> Inl MalformedArtifact | Some fs \<Rightarrow>
     (case objects idx of None \<Rightarrow> Inl MalformedArtifact | Some objs \<Rightarrow>
     (case objnames idx of None \<Rightarrow> Inl MalformedArtifact | Some ons \<Rightarrow>
     (case objtypes idx of None \<Rightarrow> Inl MalformedArtifact | Some ots \<Rightarrow>
     (case terms idx of None \<Rightarrow> Inl MalformedArtifact | Some ts \<Rightarrow>
     (case check_objects fs ons ots objs of Some e \<Rightarrow> Inl e | None \<Rightarrow>
     (case check_postings fs ts of Some e \<Rightarrow> Inl e | None \<Rightarrow>
     (case check_postings fs (titleterm_entries idx) of Some e \<Rightarrow> Inl e | None \<Rightarrow>
     (case check_titles fs (titles idx) of Some e \<Rightarrow> Inl e | None \<Rightarrow>
        Inr \<lparr>
          version = ev,
          docnames = fs,
          object_table = objs,
          kind_names = ons,
          kind_types = ots,
          term_table = map (\<lambda>(t, p). (t, posting_docnames p)) ts \<rparr>))))))))))"



text \<open>
  Modelled from the spec: re-serialising a loaded index into the format of the artifact,
  which is missing from the source. The format writes a posting as a single index or as
  a list; a one-element posting list is written as the single index, any other as the
  list. The optional keys are not written.
\<close>

fun write_posting :: "int list \<Rightarrow> posting" where
  "write_posting [d] = Single d"
| "write_posting ds = Postings ds"

definition serialize :: "loaded_index \<Rightarrow> search_index" where
  "serialize L = \<lparr>
     envversion = Some (version L),
     filenames = Some (docnames L),
     objects = Some (object_table L),
     objnames = Some (kind_names L),
     objtypes = Some (kind_types L),
     terms = Some (map (\<lambda>(t, ds). (t, write_posting ds)) (term_table L)),
     titles = None,
     titleterms = None \<rparr>"




section \<open>Reading an object literal\<close>

lemma js_get_Nil: "js_get [] k = None"
  by (simp add: js_get_def)

lemma js_get_snoc:
  "js_get (kvs @ [(k', v)]) k = (if k' = k then Some v else js_get kvs k)"
  by (simp add: js_get_def)

lemma js_get_in_set: "js_get kvs k = Some v \<Longrightarrow> (k, v) \<in> set kvs"
proof (induction kvs rule: rev_induct)
  case Nil
  then show ?case by (simp add: js_get_Nil)
next
  case (snoc kv kvs)
  obtain k' v' where kv: "kv = (k', v')" by (cases kv)
  from snoc show ?case
    by (auto simp: kv js_get_snoc split: if_splits)
qed

lemma js_get_map_values:
  "js_get (map (\<lambda>(t, p). (t, f p)) kvs) k = map_option f (js_get kvs k)"
proof (induction kvs rule: rev_induct)
  case Nil
  show ?case by (simp add: js_get_Nil)
next
  case (snoc kv kvs)
  obtain k' v' where kv: "kv = (k', v')" by (cases kv)
  from snoc show ?case
    by (simp add: kv js_get_snoc)
qed

section \<open>Checks evaluated on the tables\<close>

lemma filenames_length: "length idx_filenames = 25"
  by (simp add: idx_filenames_def)

lemma titles_length: "length idx_titles = 25"
  by (simp add: idx_titles_def)

lemma objects_checked:
  "list_all (\<lambda>(owner, ms). list_all (\<lambda>(name, e).
      0 \<le> entry_docname e \<and> entry_docname e < 25 \<and>
      0 \<le> entry_kind e \<and> entry_kind e \<le> 6 \<and>
      0 \<le> entry_priority e \<and> entry_priority e \<le> 6) ms) idx_objects"
  by (simp add: idx_objects_def)

lemma terms_checked:
  "list_all (\<lambda>(t, p). list_all (\<lambda>d. 0 \<le> d \<and> d < 25) (posting_docnames p)) idx_terms"
  by (simp add: idx_terms_def)

lemma terms_sorted:
  "list_all (\<lambda>(t, p). sorted_wrt (<) (posting_docnames p)) idx_terms"
  by (simp add: idx_terms_def)

lemma terms_stft: "js_get idx_terms ''stft'' = Some (Postings [])"
  by (simp add: js_get_def idx_terms_def)

lemma terms_stdin: "js_get idx_terms ''stdin'' = Some (Single 10)"
  by (simp add: js_get_def idx_terms_def)

lemma terms_stereo: "js_get idx_terms ''stereo'' = Some (Postings [7, 18])"
  by (simp add: js_get_def idx_terms_def)

lemma titleterms_stft: "js_get idx_titleterms ''stft'' = Some (Single 8)"
  by (simp add: js_get_def idx_titleterms_def)

lemma small_codes_known:
  assumes "0 \<le> c" "c \<le> 6"
  shows "js_get idx_objtypes (decimal c) \<noteq> None \<and> js_get idx_objnames (decimal c) \<noteq> None"
proof -
  from assms have "c = 0 \<or> c = 1 \<or> c = 2 \<or> c = 3 \<or> c = 4 \<or> c = 5 \<or> c = 6"
    by arith
  then show ?thesis
    by (elim disjE)
      (simp_all add: decimal_def dec_nat.simps digit_char_def js_get_def
        idx_objtypes_def idx_objnames_def)
qed

lemma object_entries_checked:
  assumes "(owner, name, e) \<in> set (object_entries searchindex)"
  shows "0 \<le> entry_docname e \<and> entry_docname e < 25 \<and>
      0 \<le> entry_kind e \<and> entry_kind e \<le> 6 \<and>
      0 \<le> entry_priority e \<and> entry_priority e \<le> 6"
proof -
  from assms obtain ms where "(owner, ms) \<in> set idx_objects" "(name, e) \<in> set ms"
    by (auto simp: object_entries_def searchindex_def)
  with objects_checked show ?thesis
    by (auto simp: list_all_iff)
qed

lemma term_entries_checked:
  assumes "(t, p) \<in> set (term_entries searchindex)" "d \<in> set (posting_docnames p)"
  shows "0 \<le> d \<and> d < 25"
proof -
  from assms(1) have "(t, p) \<in> set idx_terms"
    by (simp add: term_entries_def searchindex_def)
  with terms_checked assms(2) show ?thesis
    by (auto simp: list_all_iff)
qed

lemma docname_refs_checked:
  assumes "d \<in> set (docname_refs searchindex)"
  shows "0 \<le> d \<and> d < 25"
proof -
  from assms consider
    (obj) owner name e where "(owner, name, e) \<in> set (object_entries searchindex)" "d = entry_docname e"
  | (trm) t p where "(t, p) \<in> set (term_entries searchindex)" "d \<in> set (posting_docnames p)"
    by (auto simp: docname_refs_def object_docnames_def term_docname_refs_def)
  then show ?thesis
  proof cases
    case obj
    with object_entries_checked [of owner name e] show ?thesis by simp
  next
    case trm
    then show ?thesis by (rule term_entries_checked)
  qed
qed

lemma valid_docname_searchindex: "valid_docname searchindex d \<longleftrightarrow> 0 \<le> d \<and> d < 25"
  by (simp add: valid_docname_def searchindex_def filenames_length)

lemma code_refs_checked:
  assumes "c \<in> set (code_refs searchindex)"
  shows "known_code searchindex c"
proof -
  from assms obtain owner name e where
    e: "(owner, name, e) \<in> set (object_entries searchindex)"
    and c: "c = entry_kind e \<or> c = entry_priority e"
    by (auto simp: code_refs_def)
  from object_entries_checked [OF e] c have "0 \<le> c" "c \<le> 6" by auto
  then show ?thesis
    using small_codes_known [of c]
    by (simp add: known_code_def objtype_lookup_def objname_lookup_def searchindex_def)
qed

lemma first_object_entry:
  "('''', ''Duet'', (18, 0, 0, ''-'')) \<in> set (object_entries searchindex)"
  by (simp add: object_entries_def searchindex_def idx_objects_def)

section \<open>Scenarios on the artifact\<close>

text \<open>
  C2. Resolving the qualified name \<^verbatim>\<open>audio_signal.AudioSignal\<close> against the object
  table finds an inner mapping, and its member names include \<^verbatim>\<open>stft\<close>,
  \<^verbatim>\<open>istft\<close>, \<^verbatim>\<open>to_json\<close> and \<^verbatim>\<open>from_json\<close>.
\<close>

theorem audio_signal_members:
  "object_lookup searchindex ''audio_signal.AudioSignal'' \<noteq> None \<and>
   ''stft'' \<in> set (member_names searchindex ''audio_signal.AudioSignal'') \<and>
   ''istft'' \<in> set (member_names searchindex ''audio_signal.AudioSignal'') \<and>
   ''to_json'' \<in> set (member_names searchindex ''audio_signal.AudioSignal'') \<and>
   ''from_json'' \<in> set (member_names searchindex ''audio_signal.AudioSignal'')"
  by (simp add: member_names_def object_lookup_def searchindex_def js_get_def idx_objects_def)

text \<open>
  C1 (counterexample). The claim says that looking up \<^verbatim>\<open>stft\<close> in the terms table gives
  a non-empty list of docname indices that contains 23. It does not.
\<close>

theorem stft_postings_counterexample:
  "\<not> (term_docnames searchindex ''stft'' \<noteq> [] \<and>
      23 \<in> set (term_docnames searchindex ''stft''))"
  by (simp add: term_docnames_def term_lookup_def searchindex_def terms_stft)

text \<open>
  C1 (amended). The terms table has the key \<^verbatim>\<open>stft\<close> and its value is the empty list,
  so the lookup gives no docname index. The term is a title term: \<^verbatim>\<open>titleterms\<close> maps it
  to the single index 8, the page \<^verbatim>\<open>getting_started/audio_signal_stft\<close>. Index 23 is
  the position of \<^verbatim>\<open>src/spectral_utils\<close> in \<^verbatim>\<open>filenames\<close>.
\<close>

theorem stft_postings_empty:
  "term_lookup searchindex ''stft'' = Some (Postings []) \<and>
   term_docnames searchindex ''stft'' = [] \<and>
   titleterm_lookup searchindex ''stft'' = Some (Single 8) \<and>
   docname_at searchindex 8 = Some ''getting_started/audio_signal_stft'' \<and>
   docname_at searchindex 23 = Some ''src/spectral_utils''"
proof -
  have "docname_at searchindex 8 = Some ''getting_started/audio_signal_stft''"
    by (simp add: docname_at_def searchindex_def idx_filenames_def)
  moreover have "docname_at searchindex 23 = Some ''src/spectral_utils''"
    by (simp add: docname_at_def searchindex_def idx_filenames_def)
  ultimately show ?thesis
    by (simp add: term_docnames_def term_lookup_def titleterm_lookup_def searchindex_def
        terms_stft titleterms_stft)
qed

section \<open>Invariants of the artifact\<close>

text \<open>
  C3. \<^verbatim>\<open>filenames\<close> has 25 entries, and every docname index written in the objects table
  (first component of a member entry) or in the terms table (the number, or an element of
  the array) is a position of \<^verbatim>\<open>filenames\<close>: at least 0 and at most 24.
\<close>

theorem docname_refs_in_range:
  "map_option length (filenames searchindex) = Some 25 \<and>
   (\<forall>d \<in> set (docname_refs searchindex). valid_docname searchindex d \<and> 0 \<le> d \<and> d \<le> 24)"
proof -
  have "map_option length (filenames searchindex) = Some 25"
    by (simp add: searchindex_def filenames_length)
  moreover have "valid_docname searchindex d \<and> 0 \<le> d \<and> d \<le> 24"
    if "d \<in> set (docname_refs searchindex)" for d
    using docname_refs_checked [OF that] by (simp add: valid_docname_searchindex)
  ultimately show ?thesis by blast
qed

theorem docname_refs_in_range_witness:
  "18 \<in> set (docname_refs searchindex) \<and> valid_docname searchindex 18 \<and>
   docname_at searchindex 18 = Some ''src/duet''"
proof -
  have "entry_docname (18, 0, 0, ''-'') \<in> set (object_docnames searchindex)"
    unfolding object_docnames_def using first_object_entry by force
  then have m: "18 \<in> set (docname_refs searchindex)"
    by (simp add: docname_refs_def)
  have "docname_at searchindex 18 = Some ''src/duet''"
    by (simp add: docname_at_def searchindex_def idx_filenames_def)
  with m docname_refs_in_range show ?thesis by blast
qed

text \<open>
  C4. For every member entry of every inner mapping of the objects table, the kind code
  (second component) and the priority code (third component), written as decimal
  strings, are keys of \<^verbatim>\<open>objtypes\<close> and of \<^verbatim>\<open>objnames\<close>.
\<close>

theorem object_codes_known:
  "\<forall>(owner, name, e) \<in> set (object_entries searchindex).
     objtype_lookup searchindex (decimal (entry_kind e)) \<noteq> None \<and>
     objname_lookup searchindex (decimal (entry_kind e)) \<noteq> None \<and>
     objtype_lookup searchindex (decimal (entry_priority e)) \<noteq> None \<and>
     objname_lookup searchindex (decimal (entry_priority e)) \<noteq> None"
proof -
  have "objtype_lookup searchindex (decimal (entry_kind e)) \<noteq> None \<and>
     objname_lookup searchindex (decimal (entry_kind e)) \<noteq> None \<and>
     objtype_lookup searchindex (decimal (entry_priority e)) \<noteq> None \<and>
     objname_lookup searchindex (decimal (entry_priority e)) \<noteq> None"
    if "(owner, name, e) \<in> set (object_entries searchindex)" for owner name e
  proof -
    from object_entries_checked [OF that]
    have "0 \<le> entry_kind e" "entry_kind e \<le> 6" "0 \<le> entry_priority e" "entry_priority e \<le> 6"
      by simp_all
    then show ?thesis
      using small_codes_known [of "entry_kind e"] small_codes_known [of "entry_priority e"]
      by (simp add: objtype_lookup_def objname_lookup_def searchindex_def)
  qed
  then show ?thesis by blast
qed

theorem object_codes_known_witness:
  "('''', ''Duet'', (18, 0, 0, ''-'')) \<in> set (object_entries searchindex) \<and>
   objtype_lookup searchindex ''0'' = Some ''py:module'' \<and>
   objname_lookup searchindex ''0'' \<noteq> None"
proof -
  have d: "decimal (entry_kind (18, 0, 0, ''-'')) = ''0''"
    by (simp add: decimal_def dec_nat.simps digit_char_def)
  have t: "objtype_lookup searchindex ''0'' = Some ''py:module''"
    by (simp add: objtype_lookup_def searchindex_def js_get_def idx_objtypes_def)
  from first_object_entry object_codes_known
  have "objname_lookup searchindex (decimal (entry_kind (18, 0, 0, ''-''))) \<noteq> None"
    by blast
  with d t first_object_entry show ?thesis by simp
qed

text \<open>
  C5 (counterexample). The claim says that the top-level object has no \<^verbatim>\<open>titles\<close> key.
  The literal writes one.
\<close>

theorem titles_omitted_counterexample: "\<not> (titles searchindex = None)"
  by (simp add: searchindex_def)

text \<open>
  C5 (amended). The artifact has the \<^verbatim>\<open>titles\<close> key. Its value is an array of 25
  page-title strings, one for each entry of \<^verbatim>\<open>filenames\<close>, so that the title of docname
  index \<open>i\<close> is the element at position \<open>i\<close>; the title at 23 is \<^verbatim>\<open>spectral_utils.py\<close>.
\<close>

theorem titles_present:
  "titles searchindex = Some idx_titles \<and>
   length idx_titles = 25 \<and>
   map_option length (titles searchindex) = map_option length (filenames searchindex) \<and>
   idx_titles ! 23 = ''spectral_utils.py''"
proof -
  have "idx_titles ! 23 = ''spectral_utils.py''"
    by (simp add: idx_titles_def)
  then show ?thesis
    by (simp add: searchindex_def titles_length filenames_length)
qed

text \<open>
  C6. Both forms of a terms value occur: some term has a single docname index as its
  value and some term has a list. Normalising turns the single index \<open>v\<close> into the
  one-element list and keeps a list, so that after it every value of the terms table is
  a list, with the same docname indices as before, each a position of \<^verbatim>\<open>filenames\<close>.
\<close>

theorem terms_both_forms:
  "(\<exists>t v. term_lookup searchindex t = Some (Single v)) \<and>
   (\<exists>t ds. term_lookup searchindex t = Some (Postings ds)) \<and>
   (\<forall>v. normalize (Single v) = Postings [v]) \<and>
   (\<forall>(t, p) \<in> set (term_entries searchindex).
      is_list (normalize p) \<and>
      posting_docnames (normalize p) = posting_docnames p \<and>
      (\<forall>d \<in> set (posting_docnames (normalize p)). valid_docname searchindex d))"
proof -
  have "term_lookup searchindex ''stdin'' = Some (Single 10)"
    by (simp add: term_lookup_def searchindex_def terms_stdin)
  then have single: "\<exists>t v. term_lookup searchindex t = Some (Single v)"
    by blast
  have "term_lookup searchindex ''stereo'' = Some (Postings [7, 18])"
    by (simp add: term_lookup_def searchindex_def terms_stereo)
  then have many: "\<exists>t ds. term_lookup searchindex t = Some (Postings ds)"
    by blast
  have norm: "is_list (normalize p) \<and> posting_docnames (normalize p) = posting_docnames p"
    for p by (cases p) simp_all
  have "is_list (normalize p) \<and>
      posting_docnames (normalize p) = posting_docnames p \<and>
      (\<forall>d \<in> set (posting_docnames (normalize p)). valid_docname searchindex d)"
    if "(t, p) \<in> set (term_entries searchindex)" for t p
    using term_entries_checked [OF that] norm [of p]
    by (simp add: valid_docname_searchindex)
  then have every: "\<forall>(t, p) \<in> set (term_entries searchindex).
      is_list (normalize p) \<and>
      posting_docnames (normalize p) = posting_docnames p \<and>
      (\<forall>d \<in> set (posting_docnames (normalize p)). valid_docname searchindex d)"
    by blast
  have "\<forall>v. normalize (Single v) = Postings [v]"
    by simp
  with single many every show ?thesis
    by (intro conjI)
qed

theorem terms_both_forms_witness:
  "(''stdin'', Single 10) \<in> set (term_entries searchindex) \<and>
   normalize (Single 10) = Postings [10] \<and> valid_docname searchindex 10"
proof -
  have m: "(''stdin'', Single 10) \<in> set (term_entries searchindex)"
    using js_get_in_set [OF terms_stdin] by (simp add: term_entries_def searchindex_def)
  from terms_both_forms
  have "\<forall>(t, p) \<in> set (term_entries searchindex).
      is_list (normalize p) \<and>
      posting_docnames (normalize p) = posting_docnames p \<and>
      (\<forall>d \<in> set (posting_docnames (normalize p)). valid_docname searchindex d)"
    by (elim conjE)
  from bspec [OF this m] m show ?thesis by simp
qed

text \<open>
  C9. Every value of the terms table that is a list is strictly increasing, hence without
  a duplicate; and empty lists occur: the value of \<^verbatim>\<open>stft\<close> is the empty list.
\<close>

theorem postings_strictly_increasing:
  "(\<forall>(t, p) \<in> set (term_entries searchindex).
      is_list p \<longrightarrow> sorted_wrt (<) (posting_docnames p) \<and> distinct (posting_docnames p)) \<and>
   term_lookup searchindex ''stft'' = Some (Postings [])"
proof -
  have "sorted_wrt (<) (posting_docnames p) \<and> distinct (posting_docnames p)"
    if "(t, p) \<in> set (term_entries searchindex)" for t p
  proof -
    from that have "(t, p) \<in> set idx_terms"
      by (simp add: term_entries_def searchindex_def)
    with terms_sorted have "sorted_wrt (<) (posting_docnames p)"
      by (auto simp: list_all_iff)
    then show ?thesis
      by (simp add: strict_sorted_iff)
  qed
  moreover have "term_lookup searchindex ''stft'' = Some (Postings [])"
    by (simp add: term_lookup_def searchindex_def terms_stft)
  ultimately show ?thesis by blast
qed

theorem postings_strictly_increasing_witness:
  "(''stereo'', Postings [7, 18]) \<in> set (term_entries searchindex) \<and>
   is_list (Postings [7, 18]) \<and> sorted_wrt (<) [7, 18 :: int] \<and> distinct [7, 18 :: int]"
proof -
  have m: "(''stereo'', Postings [7, 18]) \<in> set (term_entries searchindex)"
    using js_get_in_set [OF terms_stereo] by (simp add: term_entries_def searchindex_def)
  from postings_strictly_increasing
  have "\<forall>(t, p) \<in> set (term_entries searchindex).
      is_list p \<longrightarrow> sorted_wrt (<) (posting_docnames p) \<and> distinct (posting_docnames p)"
    by (elim conjE)
  from bspec [OF this m] m show ?thesis by simp
qed

text \<open>
  C10. \<^verbatim>\<open>objtypes\<close> and \<^verbatim>\<open>objnames\<close> have the same keys, the decimal strings of 0 to 6,
  and for every key the value of \<^verbatim>\<open>objtypes\<close> is the domain and the kind label of the
  \<^verbatim>\<open>objnames\<close> triple joined by a colon.
\<close>

theorem objtypes_objnames_consistent:
  "set (objtypes_keys searchindex) = set (objnames_keys searchindex) \<and>
   set (objtypes_keys searchindex) = {''0'', ''1'', ''2'', ''3'', ''4'', ''5'', ''6''} \<and>
   set (objtypes_keys searchindex) = decimal ` {0, 1, 2, 3, 4, 5, 6} \<and>
   (\<forall>k \<in> set (objtypes_keys searchindex).
      \<exists>dom kind label.
        objname_lookup searchindex k = Some (dom, kind, label) \<and>
        objtype_lookup searchindex k = Some (dom @ '':'' @ kind))"
  by (simp add: objtypes_keys_def objnames_keys_def objname_lookup_def objtype_lookup_def
      searchindex_def idx_objtypes_def idx_objnames_def js_get_def
      decimal_def dec_nat.simps digit_char_def)

theorem objtypes_objnames_consistent_witness:
  "''3'' \<in> set (objtypes_keys searchindex) \<and>
   objname_lookup searchindex ''3'' = Some (''py'', ''method'', ''Python method'') \<and>
   objtype_lookup searchindex ''3'' = Some ''py:method''"
proof -
  have m: "''3'' \<in> set (objtypes_keys searchindex)"
    by (simp add: objtypes_keys_def searchindex_def idx_objtypes_def)
  from objtypes_objnames_consistent
  have "\<forall>k \<in> set (objtypes_keys searchindex).
      \<exists>dom kind label.
        objname_lookup searchindex k = Some (dom, kind, label) \<and>
        objtype_lookup searchindex k = Some (dom @ '':'' @ kind)"
    by (elim conjE)
  from bspec [OF this m] obtain dom kind label where
    "objname_lookup searchindex ''3'' = Some (dom, kind, label)"
    "objtype_lookup searchindex ''3'' = Some (dom @ '':'' @ kind)"
    by (elim exE conjE)
  moreover have "objname_lookup searchindex ''3'' = Some (''py'', ''method'', ''Python method'')"
    by (simp add: objname_lookup_def searchindex_def idx_objnames_def js_get_def)
  ultimately show ?thesis using m by simp
qed

section \<open>The loader and the serialiser\<close>

lemma posting_docnames_write: "posting_docnames (write_posting ds) = ds"
  by (cases ds rule: write_posting.cases) simp_all

lemma titleterms_checked:
  "list_all (\<lambda>(t, p). list_all (\<lambda>d. 0 \<le> d \<and> d < 25) (posting_docnames p)) idx_titleterms"
  by (simp add: idx_titleterms_def)

subsection \<open>What each walk of the loader accepts\<close>

lemma first_error_None:
  "first_error chk xs = None \<longleftrightarrow> (\<forall>x \<in> set xs. chk x = None)"
  by (induction xs) (auto split: option.splits)

lemma check_entry_None:
  "check_entry fs ons ots e = None \<longleftrightarrow>
     in_range fs (entry_docname e) \<and>
     code_listed ons ots (entry_kind e) \<and> code_listed ons ots (entry_priority e)"
  by (simp add: check_entry_def)

lemma check_objects_None:
  "check_objects fs ons ots objs = None \<longleftrightarrow>
     (\<forall>owner ms name e. (owner, ms) \<in> set objs \<longrightarrow> (name, e) \<in> set ms \<longrightarrow>
        in_range fs (entry_docname e) \<and>
        code_listed ons ots (entry_kind e) \<and> code_listed ons ots (entry_priority e))"
  by (fastforce simp: check_objects_def first_error_None check_entry_None)

lemma check_posting_None:
  "check_posting fs p = None \<longleftrightarrow> (\<forall>d \<in> set (posting_docnames p). in_range fs d)"
  by (simp add: check_posting_def list_all_iff)

lemma check_postings_None:
  "check_postings fs ts = None \<longleftrightarrow>
     (\<forall>t p d. (t, p) \<in> set ts \<longrightarrow> d \<in> set (posting_docnames p) \<longrightarrow> in_range fs d)"
proof -
  have "check_postings fs ts = None \<longleftrightarrow>
      (\<forall>t p. (t, p) \<in> set ts \<longrightarrow> check_posting fs p = None)"
    by (auto simp: check_postings_def first_error_None)
  then show ?thesis
    by (simp add: check_posting_None) blast
qed

lemma check_titles_None:
  "check_titles fs given = None \<longleftrightarrow>
     (\<forall>ts. given = Some ts \<longrightarrow> length ts \<le> length fs)"
  by (cases given) (simp_all add: check_titles_def)

subsection \<open>The three errors, on a structure that has the required keys\<close>

lemma in_object_entries:
  "objects idx = Some objs \<Longrightarrow>
   (owner, name, e) \<in> set (object_entries idx) \<longleftrightarrow>
     (\<exists>ms. (owner, ms) \<in> set objs \<and> (name, e) \<in> set ms)"
  by (auto simp: object_entries_def)

lemma object_docnames_valid:
  assumes "filenames idx = Some fs" "objects idx = Some objs"
  shows "(\<forall>d \<in> set (object_docnames idx). valid_docname idx d) \<longleftrightarrow>
     (\<forall>owner ms name e. (owner, ms) \<in> set objs \<longrightarrow> (name, e) \<in> set ms \<longrightarrow>
        in_range fs (entry_docname e))"
proof -
  have v: "valid_docname idx d \<longleftrightarrow> in_range fs d" for d
    using assms(1) by (simp add: valid_docname_def in_range_def)
  have "(\<forall>d \<in> set (object_docnames idx). valid_docname idx d) \<longleftrightarrow>
     (\<forall>owner name e. (owner, name, e) \<in> set (object_entries idx) \<longrightarrow>
        in_range fs (entry_docname e))"
    by (fastforce simp: object_docnames_def v)
  then show ?thesis
    by (simp add: in_object_entries [OF assms(2)]) blast
qed

lemma term_docnames_valid:
  assumes "filenames idx = Some fs" "terms idx = Some ts"
  shows "(\<forall>d \<in> set (term_docname_refs idx). valid_docname idx d) \<longleftrightarrow>
     (\<forall>t p d. (t, p) \<in> set ts \<longrightarrow> d \<in> set (posting_docnames p) \<longrightarrow> in_range fs d)"
  using assms
  by (fastforce simp: term_docname_refs_def term_entries_def valid_docname_def in_range_def)

lemma titleterm_docnames_valid:
  assumes "filenames idx = Some fs"
  shows "(\<forall>d \<in> set (titleterm_docname_refs idx). valid_docname idx d) \<longleftrightarrow>
     (\<forall>t p d. (t, p) \<in> set (titleterm_entries idx) \<longrightarrow> d \<in> set (posting_docnames p) \<longrightarrow>
        in_range fs d)"
  using assms
  by (fastforce simp: titleterm_docname_refs_def valid_docname_def in_range_def)

lemma title_docnames_valid:
  assumes "filenames idx = Some fs"
  shows "(\<forall>d \<in> set (title_docname_refs idx). valid_docname idx d) \<longleftrightarrow>
     (\<forall>ts. titles idx = Some ts \<longrightarrow> length ts \<le> length fs)"
proof (cases "titles idx")
  case None
  then show ?thesis by (simp add: title_docname_refs_def)
next
  case (Some ts)
  have "(\<forall>i < length ts. i < length fs) \<longleftrightarrow> length ts \<le> length fs"
    by (metis leI less_le_trans less_irrefl)
  with Some assms show ?thesis
    by (auto simp: title_docname_refs_def valid_docname_def)
qed

lemma codes_known:
  assumes "objects idx = Some objs" "objnames idx = Some ons" "objtypes idx = Some ots"
  shows "(\<forall>c \<in> set (code_refs idx). known_code idx c) \<longleftrightarrow>
     (\<forall>owner ms name e. (owner, ms) \<in> set objs \<longrightarrow> (name, e) \<in> set ms \<longrightarrow>
        code_listed ons ots (entry_kind e) \<and> code_listed ons ots (entry_priority e))"
proof -
  have k: "known_code idx c \<longleftrightarrow> code_listed ons ots c" for c
    using assms by (simp add: known_code_def code_listed_def objtype_lookup_def objname_lookup_def)
  have "(\<forall>c \<in> set (code_refs idx). known_code idx c) \<longleftrightarrow>
     (\<forall>owner name e. (owner, name, e) \<in> set (object_entries idx) \<longrightarrow>
        code_listed ons ots (entry_kind e) \<and> code_listed ons ots (entry_priority e))"
    by (fastforce simp: code_refs_def k)
  then show ?thesis
    by (simp add: in_object_entries [OF assms(1)]) blast
qed

subsection \<open>The loader against the three errors\<close>

lemma load_malformed: "malformed idx \<Longrightarrow> load idx = Inl MalformedArtifact"
  by (auto simp: malformed_def load_def split: option.splits)

lemma load_keyed:
  assumes "envversion idx = Some ev" "filenames idx = Some fs" "objects idx = Some objs"
    "objnames idx = Some ons" "objtypes idx = Some ots" "terms idx = Some ts"
  shows "load idx =
     (case check_objects fs ons ots objs of Some e \<Rightarrow> Inl e | None \<Rightarrow>
     (case check_postings fs ts of Some e \<Rightarrow> Inl e | None \<Rightarrow>
     (case check_postings fs (titleterm_entries idx) of Some e \<Rightarrow> Inl e | None \<Rightarrow>
     (case check_titles fs (titles idx) of Some e \<Rightarrow> Inl e | None \<Rightarrow>
        Inr \<lparr>
          version = ev,
          docnames = fs,
          object_table = objs,
          kind_names = ons,
          kind_types = ots,
          term_table = map (\<lambda>(t, p). (t, posting_docnames p)) ts \<rparr>))))"
  by (simp add: load_def assms)

lemma not_dangling_iff:
  "\<not> dangling idx \<longleftrightarrow>
     (\<forall>d \<in> set (object_docnames idx). valid_docname idx d) \<and>
     (\<forall>d \<in> set (term_docname_refs idx). valid_docname idx d) \<and>
     (\<forall>d \<in> set (titleterm_docname_refs idx). valid_docname idx d) \<and>
     (\<forall>d \<in> set (title_docname_refs idx). valid_docname idx d)"
  by (auto simp: dangling_def list_ex_iff structure_docname_refs_def docname_refs_def)

lemma not_unknown_codes_iff:
  "\<not> unknown_codes idx \<longleftrightarrow> (\<forall>c \<in> set (code_refs idx). known_code idx c)"
  by (simp add: unknown_codes_def list_ex_iff)

lemma load_keyed_accepts:
  assumes "envversion idx = Some ev" "filenames idx = Some fs" "objects idx = Some objs"
    "objnames idx = Some ons" "objtypes idx = Some ots" "terms idx = Some ts"
  shows "\<not> isl (load idx) \<longleftrightarrow> \<not> dangling idx \<and> \<not> unknown_codes idx"
proof -
  have "\<not> isl (load idx) \<longleftrightarrow>
      check_objects fs ons ots objs = None \<and> check_postings fs ts = None \<and>
      check_postings fs (titleterm_entries idx) = None \<and> check_titles fs (titles idx) = None"
    by (simp add: load_keyed [OF assms] split: option.splits)
  moreover have "check_objects fs ons ots objs = None \<longleftrightarrow>
      (\<forall>d \<in> set (object_docnames idx). valid_docname idx d) \<and>
      (\<forall>c \<in> set (code_refs idx). known_code idx c)"
    unfolding check_objects_None object_docnames_valid [OF assms(2,3)]
      codes_known [OF assms(3,4,5)]
    by blast
  moreover have "check_postings fs ts = None \<longleftrightarrow>
      (\<forall>d \<in> set (term_docname_refs idx). valid_docname idx d)"
    unfolding check_postings_None term_docnames_valid [OF assms(2,6)] ..
  moreover have "check_postings fs (titleterm_entries idx) = None \<longleftrightarrow>
      (\<forall>d \<in> set (titleterm_docname_refs idx). valid_docname idx d)"
    unfolding check_postings_None titleterm_docnames_valid [OF assms(2)] ..
  moreover have "check_titles fs (titles idx) = None \<longleftrightarrow>
      (\<forall>d \<in> set (title_docname_refs idx). valid_docname idx d)"
    unfolding check_titles_None title_docnames_valid [OF assms(2)] ..
  ultimately show ?thesis
    unfolding not_dangling_iff not_unknown_codes_iff by blast
qed

lemma load_isl: "isl (load idx) \<longleftrightarrow> malformed idx \<or> dangling idx \<or> unknown_codes idx"
proof (cases "malformed idx")
  case True
  then show ?thesis by (simp add: load_malformed)
next
  case False
  then obtain ev fs objs ons ots ts where
    "envversion idx = Some ev" "filenames idx = Some fs" "objects idx = Some objs"
    "objnames idx = Some ons" "objtypes idx = Some ots" "terms idx = Some ts"
    by (auto simp: malformed_def)
  from load_keyed_accepts [OF this] False show ?thesis by blast
qed

lemma load_Inr:
  assumes "load idx = Inr L"
  shows "\<not> malformed idx" and "\<not> dangling idx" and "\<not> unknown_codes idx"
    and "docnames L = the (filenames idx)"
    and "object_table L = the (objects idx)"
    and "term_table L = map (\<lambda>(t, p). (t, posting_docnames p)) (the (terms idx))"
proof -
  from assms have "\<not> isl (load idx)" by simp
  then show m: "\<not> malformed idx" and "\<not> dangling idx" and "\<not> unknown_codes idx"
    by (simp_all add: load_isl)
  from m obtain ev fs objs ons ots ts where k:
    "envversion idx = Some ev" "filenames idx = Some fs" "objects idx = Some objs"
    "objnames idx = Some ons" "objtypes idx = Some ots" "terms idx = Some ts"
    by (auto simp: malformed_def)
  from assms have "L = \<lparr>
          version = ev,
          docnames = fs,
          object_table = objs,
          kind_names = ons,
          kind_types = ots,
          term_table = map (\<lambda>(t, p). (t, posting_docnames p)) ts \<rparr>"
    by (simp add: load_keyed [OF k] split: option.splits)
  then show "docnames L = the (filenames idx)"
    and "object_table L = the (objects idx)"
    and "term_table L = map (\<lambda>(t, p). (t, posting_docnames p)) (the (terms idx))"
    by (simp_all add: k)
qed



lemma serialize_load:
  assumes "load idx = Inr L"
  shows "filenames (serialize L) = filenames idx"
    and "objects (serialize L) = objects idx"
    and "map fst (term_entries (serialize L)) = map fst (term_entries idx)"
    and "term_docnames (serialize L) w = term_docnames idx w"
proof -
  from load_Inr(1) [OF assms] obtain fs objs ts
    where fs: "filenames idx = Some fs" and objs: "objects idx = Some objs"
      and ts: "terms idx = Some ts"
    by (auto simp: malformed_def)
  from load_Inr(4) [OF assms] show "filenames (serialize L) = filenames idx"
    by (simp add: serialize_def fs)
  from load_Inr(5) [OF assms] show "objects (serialize L) = objects idx"
    by (simp add: serialize_def objs)
  have written: "terms (serialize L) =
      Some (map (\<lambda>(t, p). (t, write_posting (posting_docnames p))) ts)"
    using load_Inr(6) [OF assms] by (simp add: serialize_def ts comp_def split_def)
  show "map fst (term_entries (serialize L)) = map fst (term_entries idx)"
    by (simp add: term_entries_def written ts comp_def split_def)
  show "term_docnames (serialize L) w = term_docnames idx w"
    by (cases "js_get ts w")
      (simp_all add: term_docnames_def term_lookup_def written ts js_get_map_values
        posting_docnames_write)
qed

subsection \<open>The artifact is accepted\<close>

lemma searchindex_not_malformed: "\<not> malformed searchindex"
  by (simp add: malformed_def searchindex_def)

lemma searchindex_titleterms_valid:
  "\<forall>d \<in> set (titleterm_docname_refs searchindex). valid_docname searchindex d"
  using titleterms_checked
  by (auto simp: titleterm_docname_refs_def titleterm_entries_def searchindex_def
      list_all_iff valid_docname_def filenames_length)

lemma searchindex_titles_valid:
  "\<forall>d \<in> set (title_docname_refs searchindex). valid_docname searchindex d"
  by (auto simp: title_docname_refs_def searchindex_def titles_length valid_docname_def
      filenames_length)

lemma searchindex_not_dangling: "\<not> dangling searchindex"
proof -
  have "\<forall>d \<in> set (docname_refs searchindex). valid_docname searchindex d"
    using docname_refs_checked by (simp add: valid_docname_searchindex)
  then show ?thesis
    using searchindex_titleterms_valid searchindex_titles_valid
    by (simp add: not_dangling_iff docname_refs_def)
qed

lemma searchindex_codes_known: "\<not> unknown_codes searchindex"
  using code_refs_checked by (auto simp: unknown_codes_def list_ex_iff)

lemma searchindex_loads: "\<exists>L. load searchindex = Inr L"
proof -
  have "\<not> isl (load searchindex)"
    by (simp add: load_isl searchindex_not_malformed searchindex_not_dangling
        searchindex_codes_known)
  then show ?thesis by (cases "load searchindex") simp_all
qed

text \<open>
  C7. The artifact loads; and re-serialising what was loaded gives a structure with the
  same docname sequence in the same order, the same set of object entries, the same
  terms, and for every term a posting list that is the original one as a multiset.
\<close>

theorem searchindex_round_trip:
  "\<exists>L. load searchindex = Inr L \<and>
     filenames (serialize L) = filenames searchindex \<and>
     set (object_entries (serialize L)) = set (object_entries searchindex) \<and>
     map fst (term_entries (serialize L)) = map fst (term_entries searchindex) \<and>
     (\<forall>w. mset (term_docnames (serialize L) w) = mset (term_docnames searchindex w))"
proof -
  from searchindex_loads obtain L where L: "load searchindex = Inr L" ..
  have "object_entries (serialize L) = object_entries searchindex"
    by (simp add: object_entries_def serialize_load(2) [OF L])
  with L serialize_load(1,3,4) [OF L] show ?thesis
    by (intro exI [of _ L]) simp
qed




end
